theory Spec2Isabelle
  imports Complex_Main "HOL-Library.Word"
begin

section \<open>The Lumina diffusers node: values\<close>

text \<open>
  The development embeds \<^verbatim>\<open>lumina_diffusers_node.py\<close>. Python integers are \<open>int\<close>,
  Python and tensor floats are idealised as \<open>real\<close> (rounding and NaN are outside the
  model), and every exception that the code can raise is a value \<open>Inl e\<close> of a sum type.
\<close>

datatype error =
    ValueError string
  | ZeroDivisionError string
  | RuntimeError string
  | AttributeError string
  | OtherError string

datatype dtype = Float32 | BFloat16

text \<open>
  A tensor: its shape, its element type and its elements, read by multi-index.
\<close>

record tensor =
  shape :: "nat list"
  dtype :: dtype
  elem :: "nat list \<Rightarrow> real"

fun indices :: "nat list \<Rightarrow> nat list list" where
  "indices [] = [[]]"
| "indices (n # ns) = concat (map (\<lambda>i. map ((#) i) (indices ns)) [0..<n])"

text \<open>\<^verbatim>\<open>torch.zeros(dims, dtype=dt)\<close>: a negative dimension raises.\<close>

definition zeros :: "int list \<Rightarrow> dtype \<Rightarrow> error + tensor" where
  "zeros dims dt =
     (if list_ex (\<lambda>d. d < 0) dims
      then Inl (RuntimeError ''Trying to create tensor with negative dimension'')
      else Inr \<lparr>shape = map nat dims, dtype = dt, elem = (\<lambda>_. 0)\<rparr>)"

text \<open>\<^verbatim>\<open>x.min()\<close> and \<^verbatim>\<open>x.max()\<close>: a tensor with no element raises.\<close>

definition tensor_min :: "tensor \<Rightarrow> error + real" where
  "tensor_min x =
     (if 0 \<in> set (shape x)
      then Inl (RuntimeError ''min(): input.numel() == 0'')
      else Inr (Min (elem x ` set (indices (shape x)))))"

definition tensor_max :: "tensor \<Rightarrow> error + real" where
  "tensor_max x =
     (if 0 \<in> set (shape x)
      then Inl (RuntimeError ''max(): input.numel() == 0'')
      else Inr (Max (elem x ` set (indices (shape x)))))"

definition clamp01 :: "tensor \<Rightarrow> tensor" where
  "clamp01 x = x\<lparr>elem := (\<lambda>i. min (max (elem x i) 0) 1)\<rparr>"

text \<open>\<^verbatim>\<open>x.permute(0, 2, 3, 1)\<close>: only a tensor of four dimensions has it.\<close>

definition permute_0231 :: "tensor \<Rightarrow> error + tensor" where
  "permute_0231 x =
     (case shape x of
        [b, c, h, w] \<Rightarrow>
          Inr (x\<lparr>shape := [b, h, w, c],
                 elem := (\<lambda>i. case i of [bi, hi, wi, ci] \<Rightarrow> elem x [bi, ci, hi, wi] | _ \<Rightarrow> 0)\<rparr>)
      | _ \<Rightarrow> Inl (RuntimeError ''permute: number of dimensions does not match the ordering''))"

section \<open>The pipeline object and the node\<close>

text \<open>
  \<^verbatim>\<open>ODE(num_inference_steps, solver, t_shift)\<close>: the object holds its construction
  arguments. The class itself lives in the helper module.
\<close>

record ode =
  ode_num_inference_steps :: int
  ode_solver :: string
  ode_t_shift :: int

text \<open>
  What the closure \<^verbatim>\<open>custom_call\<close> (with \<^verbatim>\<open>model_fn\<close> inside it) captures from the
  frame of \<^verbatim>\<open>generate\<close>. It also captures \<^verbatim>\<open>self\<close>, by reference: the pipeline is
  read when the closure runs.
\<close>

record closure =
  cl_ode :: ode
  cl_width :: int
  cl_height :: int
  cl_default_image_size :: int
  cl_scaling_watershed :: real

text \<open>The value of the attribute \<^verbatim>\<open>__call__\<close> read on the pipeline object.\<close>

datatype callable = OriginalCall | CustomCall closure

record pipeline =
  sample_size :: int
  hidden_size :: int
  num_attention_heads :: int
  vae_scale_factor :: int
  cross_attention_kwargs :: "(string \<rightharpoonup> int) option"
  scheduler_shift :: real
  call_attr :: callable

record node =
  pipe :: "pipeline option"

text \<open>A seeded \<^verbatim>\<open>torch.Generator\<close>: its device and its seed.\<close>

datatype generator = Generator string int

text \<open>The values of the keyword arguments handed to the pipeline.\<close>

datatype pyval = PStr string | PInt int | PFloat real | PBool bool | PGenerator generator

text \<open>
  What a call of the pipeline returns: an object with the attribute \<^verbatim>\<open>images\<close>, or
  one without it.
\<close>

datatype pipe_output = Images tensor | NoImages

section \<open>The vector field: \<^verbatim>\<open>model_fn\<close>\<close>

datatype 'e kwarg = KwEmb 'e | KwTensor tensor | KwFloat real | KwBool bool

text \<open>
  The collaborators of \<^verbatim>\<open>model_fn\<close>: the rotary embedding generator of the helper
  module, the transformer of the pipeline, and the sampler \<^verbatim>\<open>ODE.sample\<close>. They are
  parameters; each may raise.
\<close>

record 'e model_env =
  get_2d_rotary_pos_embed_lumina :: "int \<Rightarrow> int \<Rightarrow> int \<Rightarrow> real \<Rightarrow> real \<Rightarrow> error + 'e"
  transformer :: "pipeline \<Rightarrow> tensor \<Rightarrow> real \<Rightarrow> (string \<rightharpoonup> 'e kwarg) \<Rightarrow> error + tensor"
  ODE_sample ::
    "ode \<Rightarrow> (tensor \<Rightarrow> real \<Rightarrow> (string \<rightharpoonup> 'e kwarg) \<Rightarrow> error + tensor) \<Rightarrow> (string \<rightharpoonup> pyval)
       \<Rightarrow> error + pipe_output"

text \<open>The calls that one evaluation of \<^verbatim>\<open>model_fn\<close> makes, in order.\<close>

datatype 'e call_event =
    RotaryCall int int int real real
  | TransformerCall tensor real "string \<rightharpoonup> 'e kwarg"

text \<open>
  \<^verbatim>\<open>math.sqrt(width * height / default_image_size**2)\<close>: true division raises on a zero
  divisor, the square root on a negative argument.
\<close>

definition scale_factor :: "int \<Rightarrow> int \<Rightarrow> int \<Rightarrow> error + real" where
  "scale_factor width height default_image_size =
     (if default_image_size ^ 2 = 0 then Inl (ZeroDivisionError ''division by zero'')
      else let q = real_of_int (width * height) / real_of_int (default_image_size ^ 2)
           in if q < 0 then Inl (ValueError ''math domain error'') else Inr (sqrt q))"

text \<open>
  \<^verbatim>\<open>model_fn(x, t, **model_kwargs)\<close>, with the calls it makes. \<open>t\<close> is the scalar that
  \<^verbatim>\<open>t.item()\<close> reads.
\<close>

definition model_fn_run ::
  "'e model_env \<Rightarrow> pipeline \<Rightarrow> closure \<Rightarrow> tensor \<Rightarrow> real \<Rightarrow> (string \<rightharpoonup> 'e kwarg)
     \<Rightarrow> 'e call_event list \<times> (error + tensor)" where
  "model_fn_run env p c x t model_kwargs =
     (case scale_factor (cl_width c) (cl_height c) (cl_default_image_size c) of
        Inl e \<Rightarrow> ([], Inl e)
      | Inr sf \<Rightarrow>
          let current_t = t;
              linear_factor = (if current_t < cl_scaling_watershed c then sf else 1);
              ntk_factor = (if current_t < cl_scaling_watershed c then 1 else sf)
          in if num_attention_heads p = 0
             then ([], Inl (ZeroDivisionError ''integer division or modulo by zero''))
             else
               let head_dim = hidden_size p div num_attention_heads p;
                   rot = RotaryCall head_dim (cl_height c div 8) (cl_width c div 8)
                           linear_factor ntk_factor
               in case get_2d_rotary_pos_embed_lumina env head_dim (cl_height c div 8)
                         (cl_width c div 8) linear_factor ntk_factor of
                    Inl e \<Rightarrow> ([rot], Inl e)
                  | Inr image_rotary_emb \<Rightarrow>
                      let kw = model_kwargs(''image_rotary_emb'' \<mapsto> KwEmb image_rotary_emb)
                      in ([rot, TransformerCall x t kw], transformer env p x t kw))"

definition model_fn ::
  "'e model_env \<Rightarrow> pipeline \<Rightarrow> closure \<Rightarrow> tensor \<Rightarrow> real \<Rightarrow> (string \<rightharpoonup> 'e kwarg)
     \<Rightarrow> error + tensor" where
  "model_fn env p c x t model_kwargs = snd (model_fn_run env p c x t model_kwargs)"

text \<open>The factors that a call of the embedding generator received.\<close>

fun rotary_factors :: "'e call_event \<Rightarrow> (real \<times> real) option" where
  "rotary_factors (RotaryCall _ _ _ linear_factor ntk_factor) = Some (linear_factor, ntk_factor)"
| "rotary_factors (TransformerCall _ _ _) = None"

text \<open>
  \<^verbatim>\<open>custom_call(**kwargs)\<close>: the sampler receives \<^verbatim>\<open>model_fn\<close> as its first argument.
\<close>

definition custom_call ::
  "'e model_env \<Rightarrow> pipeline \<Rightarrow> closure \<Rightarrow> (string \<rightharpoonup> pyval) \<Rightarrow> error + pipe_output" where
  "custom_call env p c kwargs = ODE_sample env (cl_ode c) (model_fn env p c) kwargs"

text \<open>
  The calls made by a series of evaluations of the vector field, whatever the sampler
  does with each result.
\<close>

fun evaluations ::
  "'e model_env \<Rightarrow> pipeline \<Rightarrow> closure \<Rightarrow> (tensor \<times> real \<times> (string \<rightharpoonup> 'e kwarg)) list
     \<Rightarrow> 'e call_event list" where
  "evaluations env p c [] = []"
| "evaluations env p c ((x, t, kw) # rest) =
     fst (model_fn_run env p c x t kw) @ evaluations env p c rest"

section \<open>Post-processing\<close>

text \<open>
  \<^verbatim>\<open>process_output(images)\<close>. The printed minimum and maximum are evaluated, so a
  tensor with no element raises there.
\<close>

definition process_output :: "tensor \<Rightarrow> error + tensor" where
  "process_output images =
     (case tensor_min images of Inl e \<Rightarrow> Inl e | Inr _ \<Rightarrow>
      case tensor_max images of Inl e \<Rightarrow> Inl e | Inr _ \<Rightarrow>
      let images1 = images\<lparr>dtype := Float32\<rparr> in
      case tensor_min images1 of Inl e \<Rightarrow> Inl e | Inr lo \<Rightarrow>
      case tensor_max images1 of Inl e \<Rightarrow> Inl e | Inr hi \<Rightarrow>
      let images2 =
            (if lo \<ge> 0 \<and> hi \<le> 1 then clamp01 images1
             else clamp01 (images1\<lparr>elem := (\<lambda>i. (elem images1 i + 1) / 2)\<rparr>)) in
      case permute_0231 images2 of Inl e \<Rightarrow> Inl e | Inr images3 \<Rightarrow>
      case tensor_min images3 of Inl e \<Rightarrow> Inl e | Inr _ \<Rightarrow>
      case tensor_max images3 of Inl e \<Rightarrow> Inl e | Inr _ \<Rightarrow>
      Inr images3)"

text \<open>
  \<^verbatim>\<open>process_latents(images, height, width)\<close>: a float32 copy under the key
  \<^verbatim>\<open>"samples"\<close>; \<open>height\<close> and \<open>width\<close> are not read.
\<close>

definition process_latents :: "tensor \<Rightarrow> int \<Rightarrow> int \<Rightarrow> error + (string \<rightharpoonup> tensor)" where
  "process_latents images height width =
     (let latents = images\<lparr>dtype := Float32\<rparr> in
      case tensor_min latents of Inl e \<Rightarrow> Inl e | Inr _ \<Rightarrow>
      case tensor_max latents of Inl e \<Rightarrow> Inl e | Inr _ \<Rightarrow>
      Inr [''samples'' \<mapsto> latents])"

section \<open>\<^verbatim>\<open>generate\<close>\<close>

record gen_args =
  model_path :: string
  prompt :: string
  negative_prompt :: string
  num_inference_steps :: int
  guidance_scale :: real
  width :: int
  height :: int
  seed :: int
  batch_size :: int
  scaling_watershed :: real
  proportional_attn :: bool
  clean_caption :: bool
  max_sequence_length :: int
  t_shift :: int
  solver :: string

text \<open>
  The collaborators of \<^verbatim>\<open>generate\<close>: what \<^verbatim>\<open>from_pretrained\<close> leaves in
  \<^verbatim>\<open>self.pipe\<close> (nothing when loading raised), the device, the four bytes that
  \<^verbatim>\<open>os.urandom(4)\<close> draws, the seeding of the generator, the constructor of
  \<^verbatim>\<open>ODE\<close> (the exception it raises, if any) and the call \<^verbatim>\<open>self.pipe(**pipe_args)\<close>.
  The call reads the pipeline object, \<^verbatim>\<open>__call__\<close> included, and does not change
  the fields modelled here. What the call does with the attribute is the parameter's
  matter: nothing here says that the object stored in \<^verbatim>\<open>__call__\<close> is what runs.
\<close>

record env =
  from_pretrained :: "string \<Rightarrow> pipeline option"
  get_torch_device :: "error + string"
  urandom4 :: "32 word"
  manual_seed :: "string \<Rightarrow> int \<Rightarrow> error + generator"
  ODE_init :: "int \<Rightarrow> string \<Rightarrow> int \<Rightarrow> error option"
  pipe_call :: "pipeline \<Rightarrow> (string \<rightharpoonup> pyval) \<Rightarrow> error + pipe_output"

text \<open>\<^verbatim>\<open>load_model\<close> catches every exception of its own.\<close>

definition load_model :: "env \<Rightarrow> node \<Rightarrow> string \<Rightarrow> node" where
  "load_model env self path =
     (case from_pretrained env path of None \<Rightarrow> self | Some p \<Rightarrow> self\<lparr>pipe := Some p\<rparr>)"

text \<open>The seed that the generator receives.\<close>

definition effective_seed :: "env \<Rightarrow> int \<Rightarrow> int" where
  "effective_seed env s = (if s = - 1 then uint (urandom4 env) else s)"

definition make_pipe_args :: "gen_args \<Rightarrow> generator \<Rightarrow> (string \<rightharpoonup> pyval)" where
  "make_pipe_args a g =
     [''prompt'' \<mapsto> PStr (prompt a),
      ''negative_prompt'' \<mapsto> PStr (negative_prompt a),
      ''height'' \<mapsto> PInt (height a),
      ''width'' \<mapsto> PInt (width a),
      ''num_inference_steps'' \<mapsto> PInt (num_inference_steps a),
      ''guidance_scale'' \<mapsto> PFloat (guidance_scale a),
      ''num_images_per_prompt'' \<mapsto> PInt (batch_size a),
      ''generator'' \<mapsto> PGenerator g,
      ''output_type'' \<mapsto> PStr ''pt'',
      ''clean_caption'' \<mapsto> PBool (clean_caption a),
      ''max_sequence_length'' \<mapsto> PInt (max_sequence_length a),
      ''scaling_watershed'' \<mapsto> PFloat (scaling_watershed a)]"

text \<open>The frame of \<^verbatim>\<open>generate\<close> once the sampler object exists.\<close>

record frame =
  fr_pipe :: pipeline
  fr_default_image_size :: int
  fr_pipe_args :: "string \<rightharpoonup> pyval"
  fr_ode :: ode

text \<open>
  From the entry of \<^verbatim>\<open>generate\<close> to the construction of the sampler. The pipeline
  object is changed in place: the node returned holds the changes made so far.
\<close>

definition generate_setup :: "env \<Rightarrow> node \<Rightarrow> gen_args \<Rightarrow> node \<times> (error + frame)" where
  "generate_setup env self a =
     (let self1 = (if pipe self = None then load_model env self (model_path a) else self) in
      case pipe self1 of
        None \<Rightarrow> (self1, Inl (ValueError ''Failed to load the pipeline.''))
      | Some p0 \<Rightarrow>
         (case get_torch_device env of Inl e \<Rightarrow> (self1, Inl e) | Inr device \<Rightarrow>
          case manual_seed env device (effective_seed env (seed a)) of
            Inl e \<Rightarrow> (self1, Inl e)
          | Inr generator \<Rightarrow>
              let default_image_size = sample_size p0 * vae_scale_factor p0;
                  p1 = p0\<lparr>cross_attention_kwargs :=
                         (if proportional_attn a
                          then Some [''base_sequence_length'' \<mapsto> (default_image_size div 16) ^ 2]
                          else None)\<rparr>;
                  time_shift_factor = 1 + t_shift a;
                  p2 = p1\<lparr>scheduler_shift := real_of_int time_shift_factor\<rparr>;
                  pipe_args = make_pipe_args a generator
              in case ODE_init env (num_inference_steps a) (solver a) (t_shift a) of
                   Some e \<Rightarrow> (self1\<lparr>pipe := Some p2\<rparr>, Inl e)
                 | None \<Rightarrow>
                     (self1\<lparr>pipe := Some p2\<rparr>,
                      Inr \<lparr>fr_pipe = p2, fr_default_image_size = default_image_size,
                           fr_pipe_args = pipe_args,
                           fr_ode = \<lparr>ode_num_inference_steps = num_inference_steps a,
                                      ode_solver = solver a, ode_t_shift = t_shift a\<rparr>\<rparr>)))"

text \<open>The closure that \<^verbatim>\<open>def custom_call\<close> creates in that frame.\<close>

definition new_closure :: "frame \<Rightarrow> gen_args \<Rightarrow> closure" where
  "new_closure s a =
     \<lparr>cl_ode = fr_ode s, cl_width = width a, cl_height = height a,
      cl_default_image_size = fr_default_image_size s,
      cl_scaling_watershed = scaling_watershed a\<rparr>"

text \<open>\<^verbatim>\<open>self.pipe.__call__ = custom_call\<close>.\<close>

definition patched :: "frame \<Rightarrow> gen_args \<Rightarrow> pipeline" where
  "patched s a = (fr_pipe s)\<lparr>call_attr := CustomCall (new_closure s a)\<rparr>"

text \<open>The body of the \<^verbatim>\<open>try\<close> block of \<^verbatim>\<open>generate\<close>.\<close>

definition generate_try ::
  "env \<Rightarrow> node \<Rightarrow> gen_args \<Rightarrow> node \<times> (error + tensor \<times> (string \<rightharpoonup> tensor))" where
  "generate_try env self a =
     (case generate_setup env self a of
        (self1, Inl e) \<Rightarrow> (self1, Inl e)
      | (self1, Inr s) \<Rightarrow>
          let original_call = call_attr (fr_pipe s) in
          case pipe_call env (patched s a) (fr_pipe_args s) of
            Inl e \<Rightarrow> (self1\<lparr>pipe := Some (patched s a)\<rparr>, Inl e)
          | Inr out \<Rightarrow>
              let self2 = self1\<lparr>pipe := Some ((patched s a)\<lparr>call_attr := original_call\<rparr>)\<rparr> in
              case out of
                NoImages \<Rightarrow> (self2, Inl (AttributeError ''images''))
              | Images images \<Rightarrow>
                  (case process_output images of
                     Inl e \<Rightarrow> (self2, Inl e)
                   | Inr processed_images \<Rightarrow>
                       (case process_latents images (height a) (width a) of
                          Inl e \<Rightarrow> (self2, Inl e)
                        | Inr latents_dict \<Rightarrow> (self2, Inr (processed_images, latents_dict)))))"

text \<open>
  \<^verbatim>\<open>generate\<close>: the \<^verbatim>\<open>except Exception\<close> branch builds the placeholder pair, and an
  exception of \<^verbatim>\<open>torch.zeros\<close> there leaves the method.
\<close>

definition generate ::
  "env \<Rightarrow> node \<Rightarrow> gen_args \<Rightarrow> node \<times> (error + tensor \<times> (string \<rightharpoonup> tensor))" where
  "generate env self a =
     (case generate_try env self a of
        (self1, Inr r) \<Rightarrow> (self1, Inr r)
      | (self1, Inl e) \<Rightarrow>
          (self1,
           case zeros [batch_size a, height a, width a, 3] Float32 of
             Inl e1 \<Rightarrow> Inl e1
           | Inr z1 \<Rightarrow>
               (case zeros [batch_size a, 4, height a div 8, width a div 8] Float32 of
                  Inl e2 \<Rightarrow> Inl e2
                | Inr z2 \<Rightarrow> Inr (z1, [''samples'' \<mapsto> z2]))))"

section \<open>Observations on a run\<close>

text \<open>
  The factors that the embedding generator receives in one evaluation of
  \<^verbatim>\<open>model_fn\<close>, if the evaluation reaches the generator.
\<close>

definition factors_passed ::
  "'e model_env \<Rightarrow> pipeline \<Rightarrow> closure \<Rightarrow> tensor \<Rightarrow> real \<Rightarrow> (string \<rightharpoonup> 'e kwarg)
     \<Rightarrow> (real \<times> real) option" where
  "factors_passed env p c x t kw =
     (case fst (model_fn_run env p c x t kw) of [] \<Rightarrow> None | ev # _ \<Rightarrow> rotary_factors ev)"

fun is_rotary :: "'e call_event \<Rightarrow> bool" where
  "is_rotary (RotaryCall _ _ _ _ _) = True"
| "is_rotary (TransformerCall _ _ _) = False"

text \<open>
  The invariant of the scaling factors in the words of the specification: exactly one
  of the pair equals the resolution-scale factor, and the other equals 1.
\<close>

definition exactly_one_scaled :: "real \<Rightarrow> real \<times> real \<Rightarrow> bool" where
  "exactly_one_scaled sf fs =
     ((fst fs = sf \<and> snd fs \<noteq> sf \<and> snd fs = 1) \<or> (snd fs = sf \<and> fst fs \<noteq> sf \<and> fst fs = 1))"

text \<open>Whether the call of the pipeline is reached and raises.\<close>

definition pipe_call_raises :: "env \<Rightarrow> node \<Rightarrow> gen_args \<Rightarrow> bool" where
  "pipe_call_raises env self a =
     (case generate_setup env self a of
        (_, Inl _) \<Rightarrow> False
      | (_, Inr s) \<Rightarrow>
          (case pipe_call env (patched s a) (fr_pipe_args s) of Inl _ \<Rightarrow> True | Inr _ \<Rightarrow> False))"

text \<open>
  Generations one after the other on the same node, each with its own collaborators and
  arguments, and whether none of them raises in the call of the pipeline.
\<close>

fun generations :: "node \<Rightarrow> (env \<times> gen_args) list \<Rightarrow> node" where
  "generations self [] = self"
| "generations self ((env, a) # rest) = generations (fst (generate env self a)) rest"

fun no_later_raise :: "node \<Rightarrow> (env \<times> gen_args) list \<Rightarrow> bool" where
  "no_later_raise self [] = True"
| "no_later_raise self ((env, a) # rest) =
     (\<not> pipe_call_raises env self a \<and> no_later_raise (fst (generate env self a)) rest)"

section \<open>Example values\<close>

text \<open>
  A pipeline with the configuration of Lumina-Next-SFT (default image size
  \<open>128 * 8 = 1024\<close>, head dimension \<open>2304 div 32 = 72\<close>), and closures over it.
\<close>

definition demo_pipeline :: pipeline where
  "demo_pipeline =
     \<lparr>sample_size = 128, hidden_size = 2304, num_attention_heads = 32, vae_scale_factor = 8,
      cross_attention_kwargs = None, scheduler_shift = 1, call_attr = OriginalCall\<rparr>"

definition demo_closure :: "int \<Rightarrow> int \<Rightarrow> real \<Rightarrow> closure" where
  "demo_closure w h ws =
     \<lparr>cl_ode = \<lparr>ode_num_inference_steps = 30, ode_solver = ''midpoint'', ode_t_shift = 4\<rparr>,
      cl_width = w, cl_height = h, cl_default_image_size = 1024, cl_scaling_watershed = ws\<rparr>"

definition demo_tensor :: "nat list \<Rightarrow> real \<Rightarrow> tensor" where
  "demo_tensor s v = \<lparr>shape = s, dtype = BFloat16, elem = (\<lambda>_. v)\<rparr>"

text \<open>
  Collaborators of \<^verbatim>\<open>model_fn\<close>: an embedding generator that returns a record of its
  arguments, and one that raises.
\<close>

definition demo_model_env :: "(int \<times> int \<times> int \<times> real \<times> real) model_env" where
  "demo_model_env =
     \<lparr>get_2d_rotary_pos_embed_lumina = (\<lambda>d h w lf nf. Inr (d, h, w, lf, nf)),
      transformer = (\<lambda>p x t kw. Inr x),
      ODE_sample = (\<lambda>ode f kwargs. Inr NoImages)\<rparr>"

definition failing_model_env :: "(int \<times> int \<times> int \<times> real \<times> real) model_env" where
  "failing_model_env =
     demo_model_env\<lparr>get_2d_rotary_pos_embed_lumina :=
       (\<lambda>d h w lf nf. Inl (ValueError ''head_dim must be divisible by 4''))\<rparr>"

definition failing_transformer_env :: "(int \<times> int \<times> int \<times> real \<times> real) model_env" where
  "failing_transformer_env =
     demo_model_env\<lparr>transformer := (\<lambda>p x t kw. Inl (RuntimeError ''CUDA out of memory''))\<rparr>"

text \<open>
  A sampler that evaluates the vector field once and raises what the evaluation raises,
  over the embedding generator that raises.
\<close>

definition failing_sampler_env :: "(int \<times> int \<times> int \<times> real \<times> real) model_env" where
  "failing_sampler_env =
     failing_model_env\<lparr>ODE_sample :=
       (\<lambda>ode f kwargs.
          case f (demo_tensor [1, 4, 256, 256] 0) 1 Map.empty of
            Inl e \<Rightarrow> Inl e
          | Inr y \<Rightarrow> Inr (Images y))\<rparr>"

definition demo_evaluations ::
  "(tensor \<times> real \<times> (string \<rightharpoonup> (int \<times> int \<times> int \<times> real \<times> real) kwarg)) list" where
  "demo_evaluations =
     [(demo_tensor [1, 4, 256, 256] 0, 1/4, Map.empty),
      (demo_tensor [1, 4, 256, 256] 0, 3/4, Map.empty)]"

text \<open>
  Collaborators of \<^verbatim>\<open>generate\<close>. The pipeline returns decoded images of shape
  (batch, 3, height, width), as \<^verbatim>\<open>output_type="pt"\<close> asks, whose value depends on the
  seed of the generator; \<open>u\<close> is the draw of \<^verbatim>\<open>os.urandom(4)\<close>. The failing
  collaborators raise in the call of the pipeline.
\<close>

definition demo_env :: "32 word \<Rightarrow> env" where
  "demo_env u =
     \<lparr>from_pretrained = (\<lambda>path. Some demo_pipeline),
      get_torch_device = Inr ''cuda'',
      urandom4 = u,
      manual_seed = (\<lambda>device s. Inr (Generator device s)),
      ODE_init = (\<lambda>n sv ts. None),
      pipe_call = (\<lambda>p kw.
        case (kw ''generator'', kw ''num_images_per_prompt'', kw ''height'', kw ''width'') of
          (Some (PGenerator (Generator d s)), Some (PInt b), Some (PInt h), Some (PInt w)) \<Rightarrow>
            Inr (Images \<lparr>shape = [nat b, 3, nat h, nat w], dtype = BFloat16,
                         elem = (\<lambda>_. real_of_int (s mod 2))\<rparr>)
        | _ \<Rightarrow> Inl (OtherError ''unexpected keyword arguments''))\<rparr>"

definition failing_env :: env where
  "failing_env = (demo_env 7)\<lparr>pipe_call := (\<lambda>p kw. Inl (RuntimeError ''CUDA out of memory''))\<rparr>"

text \<open>
  Collaborators whose pipeline raises with a report of the \<^verbatim>\<open>__call__\<close> attribute of
  the object it is invoked on.
\<close>

definition reporting_env :: env where
  "reporting_env =
     (demo_env 7)\<lparr>pipe_call := (\<lambda>p kw.
        case call_attr p of
          OriginalCall \<Rightarrow> Inl (OtherError ''__call__ is the method of the pipeline'')
        | CustomCall c \<Rightarrow> Inl (OtherError ''__call__ is custom_call''))\<rparr>"

text \<open>The arguments of the node's interface at their defaults, but size and seed.\<close>

definition demo_args :: "int \<Rightarrow> int \<Rightarrow> int \<Rightarrow> gen_args" where
  "demo_args w h sd =
     \<lparr>model_path = ''Lumina-Next-SFT-diffusers'', prompt = ''a lighthouse at dusk'',
      negative_prompt = '''', num_inference_steps = 30, guidance_scale = 4,
      width = w, height = h, seed = sd, batch_size = 1, scaling_watershed = 1,
      proportional_attn = True, clean_caption = True, max_sequence_length = 256,
      t_shift = 4, solver = ''midpoint''\<rparr>"

text \<open>
  The frame that \<^verbatim>\<open>generate\<close> reaches on \<open>demo_pipeline\<close> with these arguments, when
  the generator is seeded with \<open>es\<close>.
\<close>

definition demo_frame :: "int \<Rightarrow> int \<Rightarrow> int \<Rightarrow> int \<Rightarrow> frame" where
  "demo_frame w h sd es =
     \<lparr>fr_pipe = demo_pipeline\<lparr>cross_attention_kwargs := Some [''base_sequence_length'' \<mapsto> 4096],
                               scheduler_shift := 5\<rparr>,
      fr_default_image_size = 1024,
      fr_pipe_args = make_pipe_args (demo_args w h sd) (Generator ''cuda'' es),
      fr_ode = \<lparr>ode_num_inference_steps = 30, ode_solver = ''midpoint'', ode_t_shift = 4\<rparr>\<rparr>"

section \<open>Evaluating tensors\<close>

lemma indices_empty: "indices s = [] \<longleftrightarrow> 0 \<in> set s"
proof (induction s)
  case Nil
  show ?case by simp
next
  case (Cons n ns)
  show ?case
  proof (cases "n = 0")
    case True
    then show ?thesis by simp
  next
    case False
    then have "0 \<in> set [0..<n]" by simp
    with False Cons show ?thesis by (auto simp add: concat_eq_Nil_conv simp del: set_upt)
  qed
qed

lemma tensor_min_const:
  "0 \<notin> set s \<Longrightarrow> tensor_min \<lparr>shape = s, dtype = d, elem = (\<lambda>_. v)\<rparr> = Inr v"
  by (simp add: tensor_min_def image_constant_conv indices_empty)

lemma tensor_max_const:
  "0 \<notin> set s \<Longrightarrow> tensor_max \<lparr>shape = s, dtype = d, elem = (\<lambda>_. v)\<rparr> = Inr v"
  by (simp add: tensor_max_def image_constant_conv indices_empty)

lemma tensor_min_Inr: "0 \<notin> set (shape x) \<Longrightarrow> \<exists>v. tensor_min x = Inr v"
  by (simp add: tensor_min_def)

lemma tensor_max_Inr: "0 \<notin> set (shape x) \<Longrightarrow> \<exists>v. tensor_max x = Inr v"
  by (simp add: tensor_max_def)

lemma process_output_const:
  assumes "0 \<le> v" and "v \<le> 1" and "0 < b" and "0 < c" and "0 < h" and "0 < w"
  shows "process_output \<lparr>shape = [b, c, h, w], dtype = d, elem = (\<lambda>_. v)\<rparr> =
         Inr \<lparr>shape = [b, h, w, c], dtype = Float32,
              elem = (\<lambda>i. case i of [bi, hi, wi, ci] \<Rightarrow> v | _ \<Rightarrow> 0)\<rparr>"
proof -
  have nz: "0 \<notin> set [b, c, h, w]" and nz': "0 \<notin> set [b, h, w, c]"
    using assms(3-6) by auto
  have cl: "clamp01 \<lparr>shape = [b, c, h, w], dtype = Float32, elem = (\<lambda>_. v)\<rparr> =
      \<lparr>shape = [b, c, h, w], dtype = Float32, elem = (\<lambda>_. v)\<rparr>"
    using assms(1,2) by (simp add: clamp01_def min_def max_def)
  let ?out = "\<lparr>shape = [b, h, w, c], dtype = Float32,
              elem = (\<lambda>i. case i of [bi, hi, wi, ci] \<Rightarrow> v | _ \<Rightarrow> 0)\<rparr>"
  have pm: "permute_0231 \<lparr>shape = [b, c, h, w], dtype = Float32, elem = (\<lambda>_. v)\<rparr> = Inr ?out"
    by (simp add: permute_0231_def)
  obtain lo hi where lo: "tensor_min ?out = Inr lo" and hi: "tensor_max ?out = Inr hi"
    using tensor_min_Inr [of ?out] tensor_max_Inr [of ?out] nz' by auto
  show ?thesis
    using assms(1,2)
    by (simp add: process_output_def tensor_min_const [OF nz] tensor_max_const [OF nz]
        cl pm lo hi)
qed

lemma process_latents_const:
  assumes "0 \<notin> set s"
  shows "process_latents \<lparr>shape = s, dtype = d, elem = (\<lambda>_. v)\<rparr> h w =
         Inr [''samples'' \<mapsto> \<lparr>shape = s, dtype = Float32, elem = (\<lambda>_. v)\<rparr>]"
  by (simp add: process_latents_def tensor_min_const [OF assms] tensor_max_const [OF assms])

section \<open>Facts about \<^verbatim>\<open>model_fn\<close>\<close>

lemma model_fn_run_ok:
  assumes "scale_factor (cl_width c) (cl_height c) (cl_default_image_size c) = Inr sf"
    and "num_attention_heads p \<noteq> 0"
  shows "fst (model_fn_run env p c x t kw) =
           RotaryCall (hidden_size p div num_attention_heads p) (cl_height c div 8)
             (cl_width c div 8)
             (if t < cl_scaling_watershed c then sf else 1)
             (if t < cl_scaling_watershed c then 1 else sf) #
           (case get_2d_rotary_pos_embed_lumina env (hidden_size p div num_attention_heads p)
                   (cl_height c div 8) (cl_width c div 8)
                   (if t < cl_scaling_watershed c then sf else 1)
                   (if t < cl_scaling_watershed c then 1 else sf) of
              Inl e \<Rightarrow> []
            | Inr emb \<Rightarrow> [TransformerCall x t (kw(''image_rotary_emb'' \<mapsto> KwEmb emb))])"
  using assms by (simp add: model_fn_run_def Let_def split: sum.split)

lemma factors_passed_ok:
  assumes "scale_factor (cl_width c) (cl_height c) (cl_default_image_size c) = Inr sf"
    and "num_attention_heads p \<noteq> 0"
  shows "factors_passed env p c x t kw =
           Some (if t < cl_scaling_watershed c then (sf, 1) else (1, sf))"
  by (simp add: factors_passed_def model_fn_run_ok [OF assms])

lemma model_fn_propagates:
  assumes "scale_factor (cl_width c) (cl_height c) (cl_default_image_size c) = Inr sf"
    and "num_attention_heads p \<noteq> 0"
  shows "model_fn menv p c x t kw =
     (case get_2d_rotary_pos_embed_lumina menv (hidden_size p div num_attention_heads p)
             (cl_height c div 8) (cl_width c div 8)
             (if t < cl_scaling_watershed c then sf else 1)
             (if t < cl_scaling_watershed c then 1 else sf) of
        Inl e \<Rightarrow> Inl e
      | Inr emb \<Rightarrow> transformer menv p x t (kw(''image_rotary_emb'' \<mapsto> KwEmb emb)))"
  using assms by (simp add: model_fn_def model_fn_run_def Let_def split: sum.split)

lemma model_fn_scale_error:
  assumes "scale_factor (cl_width c) (cl_height c) (cl_default_image_size c) = Inl e"
  shows "model_fn menv p c x t kw = Inl e"
  using assms by (simp add: model_fn_def model_fn_run_def)

lemma model_fn_no_heads:
  assumes "scale_factor (cl_width c) (cl_height c) (cl_default_image_size c) = Inr sf"
    and "num_attention_heads p = 0"
  shows "model_fn menv p c x t kw = Inl (ZeroDivisionError ''integer division or modulo by zero'')"
  using assms by (simp add: model_fn_def model_fn_run_def Let_def)

lemma evaluations_rotary_calls:
  assumes "scale_factor (cl_width c) (cl_height c) (cl_default_image_size c) = Inr sf"
    and "num_attention_heads p \<noteq> 0"
  shows "filter is_rotary (evaluations env p c evs) =
         map (\<lambda>(x, t, kw).
                RotaryCall (hidden_size p div num_attention_heads p) (cl_height c div 8)
                  (cl_width c div 8)
                  (if t < cl_scaling_watershed c then sf else 1)
                  (if t < cl_scaling_watershed c then 1 else sf)) evs"
proof (induction evs)
  case Nil
  show ?case by simp
next
  case (Cons ev evs)
  obtain x t kw where ev: "ev = (x, t, kw)" by (cases ev)
  show ?case
    unfolding ev using Cons.IH
    by (simp add: model_fn_run_ok [OF assms] split: sum.split)
qed

lemma evaluations_transformer_preceded:
  assumes "scale_factor (cl_width c) (cl_height c) (cl_default_image_size c) = Inr sf"
    and "num_attention_heads p \<noteq> 0"
    and "i < length (evaluations env p c evs)"
    and "evaluations env p c evs ! i = TransformerCall x' t' kw'"
  shows "0 < i \<and>
         (\<exists>emb. evaluations env p c evs ! (i - 1) =
                  RotaryCall (hidden_size p div num_attention_heads p) (cl_height c div 8)
                    (cl_width c div 8)
                    (if t' < cl_scaling_watershed c then sf else 1)
                    (if t' < cl_scaling_watershed c then 1 else sf)
            \<and> get_2d_rotary_pos_embed_lumina env (hidden_size p div num_attention_heads p)
                  (cl_height c div 8) (cl_width c div 8)
                  (if t' < cl_scaling_watershed c then sf else 1)
                  (if t' < cl_scaling_watershed c then 1 else sf) = Inr emb
            \<and> kw' ''image_rotary_emb'' = Some (KwEmb emb))"
  using assms(3,4)
proof (induction evs arbitrary: i)
  case Nil
  then show ?case by simp
next
  case (Cons ev evs)
  obtain x t kw where ev: "ev = (x, t, kw)" by (cases ev)
  let ?one = "fst (model_fn_run env p c x t kw)"
  let ?rest = "evaluations env p c evs"
  have tr: "evaluations env p c (ev # evs) = ?one @ ?rest"
    by (simp add: ev)
  show ?case
  proof (cases "i < length ?one")
    case True
    with Cons.prems have here: "?one ! i = TransformerCall x' t' kw'"
      by (simp add: tr nth_append)
    from True here show ?thesis
      unfolding tr
      by (auto simp add: model_fn_run_ok [OF assms(1,2)] nth_append nth_Cons'
          split: sum.splits if_splits)
  next
    case False
    let ?j = "i - length ?one"
    from False Cons.prems have j: "?j < length ?rest"
      and there: "?rest ! ?j = TransformerCall x' t' kw'"
      by (simp_all add: tr nth_append)
    from Cons.IH [OF j there] have pos: "0 < ?j" by simp
    then have i: "0 < i" by arith
    have "\<not> i - 1 < length ?one" using pos by arith
    moreover have "i - 1 - length ?one = ?j - 1" by arith
    ultimately have eq: "(?one @ ?rest) ! (i - 1) = ?rest ! (?j - 1)"
      by (simp only: nth_append if_False)
    show ?thesis
      unfolding tr eq using Cons.IH [OF j there] i by blast
  qed
qed

lemma scale_factor_double: "scale_factor 2048 2048 1024 = Inr 2"
  by (simp add: scale_factor_def)

section \<open>Facts about \<^verbatim>\<open>generate\<close>\<close>

lemma generate_setup_Inr:
  assumes "generate_setup env self a = (self1, Inr s)"
  shows "fr_default_image_size s = sample_size (fr_pipe s) * vae_scale_factor (fr_pipe s)"
    and "scheduler_shift (fr_pipe s) = real_of_int (1 + t_shift a)"
    and "fr_ode s = \<lparr>ode_num_inference_steps = num_inference_steps a, ode_solver = solver a,
                      ode_t_shift = t_shift a\<rparr>"
    and "pipe self1 = Some (fr_pipe s)"
  using assms
  by (auto simp add: generate_setup_def Let_def
      split: option.splits sum.splits if_splits)

lemma generate_setup_Inl:
  "generate_setup env self a = (self1, Inl e) \<Longrightarrow> generate_try env self a = (self1, Inl e)"
  by (simp add: generate_try_def)

lemma fst_generate: "fst (generate env self a) = fst (generate_try env self a)"
  by (simp add: generate_def split: prod.split sum.split)

lemma patched_restore: "(patched s a)\<lparr>call_attr := call_attr (fr_pipe s)\<rparr> = fr_pipe s"
  by (simp add: patched_def)

lemma generate_try_node:
  assumes "generate_setup env self a = (self1, Inr s)"
  shows "fst (generate_try env self a) =
           (case pipe_call env (patched s a) (fr_pipe_args s) of
              Inl e \<Rightarrow> self1\<lparr>pipe := Some (patched s a)\<rparr>
            | Inr out \<Rightarrow> self1)"
proof -
  have "self1\<lparr>pipe := Some (fr_pipe s)\<rparr> = self1"
    using generate_setup_Inr(4) [OF assms] by simp
  then show ?thesis
    by (simp add: generate_try_def assms Let_def patched_restore
        split: sum.split pipe_output.split)
qed

lemma generate_setup_urandom:
  "seed a \<noteq> - 1 \<Longrightarrow> generate_setup (env\<lparr>urandom4 := u\<rparr>) self a = generate_setup env self a"
  by (simp add: generate_setup_def load_model_def effective_seed_def Let_def
      cong: option.case_cong sum.case_cong)

lemma generate_urandom:
  "seed a \<noteq> - 1 \<Longrightarrow> generate (env\<lparr>urandom4 := u\<rparr>) self a = generate env self a"
  by (simp add: generate_def generate_try_def generate_setup_urandom
      cong: prod.case_cong sum.case_cong)

lemma generate_setup_again:
  "generate_setup env (fst (generate_setup env self a)) a = generate_setup env self a"
  by (simp add: generate_setup_def load_model_def Let_def split: option.split sum.split)

lemma generate_setup_patched:
  assumes "generate_setup env self a = (self1, Inr s)"
  shows "generate_setup env (self1\<lparr>pipe := Some (patched s a)\<rparr>) a =
           (self1\<lparr>pipe := Some (patched s a)\<rparr>, Inr (s\<lparr>fr_pipe := patched s a\<rparr>))"
  using assms
  by (auto simp add: generate_setup_def Let_def patched_def new_closure_def
      split: option.splits sum.splits if_splits)

lemma patched_patched: "patched (s\<lparr>fr_pipe := patched s a\<rparr>) a = patched s a"
  by (simp add: patched_def new_closure_def)

lemma generate_try_patched:
  assumes "generate_setup env self a = (self1, Inr s)"
  shows "snd (generate_try env (self1\<lparr>pipe := Some (patched s a)\<rparr>) a) =
         snd (generate_try env self a)"
  by (simp add: generate_try_def assms generate_setup_patched [OF assms] patched_patched
      Let_def split: sum.split pipe_output.split)

lemma generate_try_again:
  "snd (generate_try env (fst (generate_try env self a)) a) = snd (generate_try env self a)"
proof (cases "generate_setup env self a")
  case (Pair self1 r)
  have again: "generate_setup env self1 a = (self1, r)"
    using generate_setup_again [of env self a] by (simp add: Pair)
  show ?thesis
  proof (cases r)
    case (Inl e)
    have "generate_try env self a = (self1, Inl e)"
      using Pair Inl by (simp add: generate_setup_Inl)
    moreover have "generate_try env self1 a = (self1, Inl e)"
      using again Inl by (simp add: generate_setup_Inl)
    ultimately show ?thesis by simp
  next
    case (Inr s)
    have su: "generate_setup env self a = (self1, Inr s)"
      using Pair Inr by simp
    have su1: "generate_setup env self1 a = (self1, Inr s)"
      using again Inr by simp
    show ?thesis
    proof (cases "pipe_call env (patched s a) (fr_pipe_args s)")
      case (Inl e)
      then have "fst (generate_try env self a) = self1\<lparr>pipe := Some (patched s a)\<rparr>"
        by (simp add: generate_try_node [OF su])
      then show ?thesis
        by (simp add: generate_try_patched [OF su])
    next
      case (Inr out)
      then have "fst (generate_try env self a) = self1"
        by (simp add: generate_try_node [OF su])
      then show ?thesis
        by (simp add: generate_try_def su su1)
    qed
  qed
qed

lemma generate_again:
  "snd (generate env (fst (generate env self a)) a) = snd (generate env self a)"
proof -
  have "snd (generate env n a) =
      (case snd (generate_try env n a) of
         Inr r \<Rightarrow> Inr r
       | Inl e \<Rightarrow>
           (case zeros [batch_size a, height a, width a, 3] Float32 of
             Inl e1 \<Rightarrow> Inl e1
           | Inr z1 \<Rightarrow>
               (case zeros [batch_size a, 4, height a div 8, width a div 8] Float32 of
                  Inl e2 \<Rightarrow> Inl e2
                | Inr z2 \<Rightarrow> Inr (z1, [''samples'' \<mapsto> z2]))))" for n
    by (simp add: generate_def split: prod.split sum.split)
  then show ?thesis
    by (simp add: fst_generate generate_try_again)
qed

lemma generate_setup_keeps_call:
  assumes "pipe self = Some q"
  shows "\<exists>q1. pipe (fst (generate_setup env self a)) = Some q1 \<and> call_attr q1 = call_attr q"
  using assms
  by (auto simp add: generate_setup_def Let_def split: option.splits sum.splits)

lemma pipe_call_raises_node:
  assumes "pipe_call_raises env self a"
  shows "\<exists>self1 s. generate_setup env self a = (self1, Inr s)
           \<and> fst (generate env self a) = self1\<lparr>pipe := Some (patched s a)\<rparr>"
proof -
  obtain self1 r where su: "generate_setup env self a = (self1, r)"
    by (cases "generate_setup env self a")
  with assms obtain s where r: "r = Inr s"
    by (cases r) (simp_all add: pipe_call_raises_def)
  from assms su r obtain e where "pipe_call env (patched s a) (fr_pipe_args s) = Inl e"
    by (cases "pipe_call env (patched s a) (fr_pipe_args s)") (simp_all add: pipe_call_raises_def)
  then have "fst (generate env self a) = self1\<lparr>pipe := Some (patched s a)\<rparr>"
    using su r by (simp add: fst_generate generate_try_node)
  with su r show ?thesis by simp
qed

lemma generate_keeps_call:
  assumes "pipe self = Some q" and "\<not> pipe_call_raises env self a"
  shows "\<exists>q1. pipe (fst (generate env self a)) = Some q1 \<and> call_attr q1 = call_attr q"
proof -
  obtain self1 r where su: "generate_setup env self a = (self1, r)"
    by (cases "generate_setup env self a")
  from generate_setup_keeps_call [OF assms(1), of env a] su
  obtain q1 where q1: "pipe self1 = Some q1" "call_attr q1 = call_attr q"
    by auto
  show ?thesis
  proof (cases r)
    case (Inl e)
    with su q1 show ?thesis
      by (simp add: fst_generate generate_setup_Inl)
  next
    case (Inr s)
    with su assms(2) obtain out where "pipe_call env (patched s a) (fr_pipe_args s) = Inr out"
      by (cases "pipe_call env (patched s a) (fr_pipe_args s)") (simp_all add: pipe_call_raises_def)
    then have "fst (generate env self a) = self1"
      using su Inr by (simp add: fst_generate generate_try_node)
    with q1 show ?thesis by simp
  qed
qed

lemma generate_keeps_custom:
  assumes "pipe self = Some q" and "call_attr q = CustomCall c"
  shows "\<exists>q1 c1. pipe (fst (generate env self a)) = Some q1 \<and> call_attr q1 = CustomCall c1"
proof (cases "pipe_call_raises env self a")
  case True
  from pipe_call_raises_node [OF True] show ?thesis
    by (auto simp add: patched_def)
next
  case False
  from generate_keeps_call [OF assms(1) False] assms(2) show ?thesis
    by auto
qed

lemma generations_keep_custom:
  assumes "pipe self = Some q" and "call_attr q = CustomCall c"
  shows "\<exists>q1 c1. pipe (generations self runs) = Some q1 \<and> call_attr q1 = CustomCall c1"
  using assms
proof (induction runs arbitrary: self q c)
  case Nil
  then show ?case by simp
next
  case (Cons run runs)
  obtain env a where run: "run = (env, a)" by (cases run)
  from generate_keeps_custom [OF Cons.prems, of env a]
  obtain q1 c1 where "pipe (fst (generate env self a)) = Some q1" "call_attr q1 = CustomCall c1"
    by auto
  from Cons.IH [OF this] show ?case by (simp add: run)
qed

lemma generations_keep_call:
  assumes "pipe self = Some q" and "no_later_raise self runs"
  shows "\<exists>q1. pipe (generations self runs) = Some q1 \<and> call_attr q1 = call_attr q"
  using assms
proof (induction runs arbitrary: self q)
  case Nil
  then show ?case by simp
next
  case (Cons run runs)
  obtain env a where run: "run = (env, a)" by (cases run)
  from Cons.prems(2) have nr: "\<not> pipe_call_raises env self a"
    and later: "no_later_raise (fst (generate env self a)) runs"
    by (simp_all add: run)
  from generate_keeps_call [OF Cons.prems(1) nr]
  obtain q1 where q1: "pipe (fst (generate env self a)) = Some q1" "call_attr q1 = call_attr q"
    by auto
  from Cons.IH [OF q1(1) later] q1(2) show ?case by (simp add: run)
qed

lemma placeholder_on_error:
  assumes "snd (generate_try env self a) = Inl e"
    and "0 \<le> batch_size a" and "0 \<le> height a" and "0 \<le> width a"
  shows "snd (generate env self a) =
           Inr (\<lparr>shape = [nat (batch_size a), nat (height a), nat (width a), 3],
                 dtype = Float32, elem = (\<lambda>_. 0)\<rparr>,
                [''samples'' \<mapsto>
                   \<lparr>shape = [nat (batch_size a), 4, nat (height a div 8), nat (width a div 8)],
                    dtype = Float32, elem = (\<lambda>_. 0)\<rparr>])"
proof -
  obtain self1 where t: "generate_try env self a = (self1, Inl e)"
    using assms(1) by (cases "generate_try env self a") simp
  have h8: "\<not> height a div 8 < 0" and w8: "\<not> width a div 8 < 0"
    using assms(3,4) by (simp_all add: pos_imp_zdiv_neg_iff)
  show ?thesis
    using assms(2-4) h8 w8 by (simp add: generate_def t zeros_def)
qed

lemma successful_run_shapes:
  assumes "generate_try env self a = (self1, Inr (img, latents_dict))"
  shows "\<exists>images b c h w. latents_dict = [''samples'' \<mapsto> images\<lparr>dtype := Float32\<rparr>]
           \<and> shape images = [b, c, h, w] \<and> shape img = [b, h, w, c]"
  using assms
  by (auto simp add: generate_try_def process_output_def process_latents_def permute_0231_def
      clamp01_def Let_def
      split: prod.splits sum.splits pipe_output.splits list.splits if_splits)

section \<open>The example runs\<close>

lemma demo_setup:
  "generate_setup (demo_env u) \<lparr>pipe = None\<rparr> (demo_args w h sd) =
     (\<lparr>pipe = Some (fr_pipe (demo_frame w h sd (if sd = - 1 then uint u else sd)))\<rparr>,
      Inr (demo_frame w h sd (if sd = - 1 then uint u else sd)))"
  by (simp add: generate_setup_def load_model_def demo_env_def demo_args_def demo_frame_def
      demo_pipeline_def effective_seed_def Let_def)

lemma demo_pipe_call:
  "pipe_call (demo_env u) (patched (demo_frame w h sd es) (demo_args w h sd))
     (fr_pipe_args (demo_frame w h sd es)) =
   Inr (Images \<lparr>shape = [1, 3, nat h, nat w], dtype = BFloat16,
                elem = (\<lambda>_. real_of_int (es mod 2))\<rparr>)"
  by (simp add: demo_env_def demo_frame_def make_pipe_args_def demo_args_def)

lemma demo_generate_try:
  assumes "0 < h" and "0 < w" and "es = (if sd = - 1 then uint u else sd)"
  shows "generate_try (demo_env u) \<lparr>pipe = None\<rparr> (demo_args w h sd) =
     (\<lparr>pipe = Some (fr_pipe (demo_frame w h sd es))\<rparr>,
      Inr (\<lparr>shape = [1, nat h, nat w, 3], dtype = Float32,
            elem = (\<lambda>i. case i of [bi, hi, wi, ci] \<Rightarrow> real_of_int (es mod 2) | _ \<Rightarrow> 0)\<rparr>,
           [''samples'' \<mapsto> \<lparr>shape = [1, 3, nat h, nat w], dtype = Float32,
                              elem = (\<lambda>_. real_of_int (es mod 2))\<rparr>]))"
proof -
  have v: "0 \<le> real_of_int (es mod 2)" "real_of_int (es mod 2) \<le> 1"
    by (simp_all add: of_int_le_1_iff)
  have po: "process_output \<lparr>shape = [1, 3, nat h, nat w], dtype = BFloat16,
                elem = (\<lambda>_. real_of_int (es mod 2))\<rparr> =
        Inr \<lparr>shape = [1, nat h, nat w, 3], dtype = Float32,
            elem = (\<lambda>i. case i of [bi, hi, wi, ci] \<Rightarrow> real_of_int (es mod 2) | _ \<Rightarrow> 0)\<rparr>"
    using assms(1,2) by (intro process_output_const v) simp_all
  have pl: "process_latents \<lparr>shape = [1, 3, nat h, nat w], dtype = BFloat16,
                elem = (\<lambda>_. real_of_int (es mod 2))\<rparr> (height (demo_args w h sd))
                (width (demo_args w h sd)) =
        Inr [''samples'' \<mapsto> \<lparr>shape = [1, 3, nat h, nat w], dtype = Float32,
                              elem = (\<lambda>_. real_of_int (es mod 2))\<rparr>]"
    using assms(1,2) by (intro process_latents_const) simp
  have rs: "(patched (demo_frame w h sd es) (demo_args w h sd))
      \<lparr>call_attr := call_attr (fr_pipe (demo_frame w h sd es))\<rparr> = fr_pipe (demo_frame w h sd es)"
    by (simp add: patched_def)
  have su: "generate_setup (demo_env u) \<lparr>pipe = None\<rparr> (demo_args w h sd) =
     (\<lparr>pipe = Some (fr_pipe (demo_frame w h sd es))\<rparr>, Inr (demo_frame w h sd es))"
    unfolding assms(3) by (rule demo_setup)
  show ?thesis
    unfolding generate_try_def su
    by (simp only: prod.case sum.case Let_def demo_pipe_call pipe_output.case po pl rs) simp
qed

lemma demo_generate:
  assumes "0 < h" and "0 < w" and "es = (if sd = - 1 then uint u else sd)"
  shows "generate (demo_env u) \<lparr>pipe = None\<rparr> (demo_args w h sd) =
     (\<lparr>pipe = Some (fr_pipe (demo_frame w h sd es))\<rparr>,
      Inr (\<lparr>shape = [1, nat h, nat w, 3], dtype = Float32,
            elem = (\<lambda>i. case i of [bi, hi, wi, ci] \<Rightarrow> real_of_int (es mod 2) | _ \<Rightarrow> 0)\<rparr>,
           [''samples'' \<mapsto> \<lparr>shape = [1, 3, nat h, nat w], dtype = Float32,
                              elem = (\<lambda>_. real_of_int (es mod 2))\<rparr>]))"
  by (simp only: generate_def demo_generate_try [OF assms] prod.case sum.case)

lemma failing_setup:
  "generate_setup failing_env self a = generate_setup (demo_env 7) self a"
  by (simp add: generate_setup_def load_model_def effective_seed_def failing_env_def
      demo_env_def Let_def cong: option.case_cong sum.case_cong)

lemma failing_generate_try:
  "generate_try failing_env \<lparr>pipe = None\<rparr> (demo_args w h 42) =
     (\<lparr>pipe = Some (patched (demo_frame w h 42 42) (demo_args w h 42))\<rparr>,
      Inl (RuntimeError ''CUDA out of memory''))"
proof -
  have su: "generate_setup failing_env \<lparr>pipe = None\<rparr> (demo_args w h 42) =
     (\<lparr>pipe = Some (fr_pipe (demo_frame w h 42 42))\<rparr>, Inr (demo_frame w h 42 42))"
    using demo_setup [of 7 w h 42] by (simp add: failing_setup)
  have pc: "pipe_call failing_env p kw = Inl (RuntimeError ''CUDA out of memory'')" for p kw
    by (simp add: failing_env_def)
  show ?thesis
    unfolding generate_try_def su by (simp add: pc)
qed

section \<open>C1: the branch at the watershed\<close>

text \<open>
  C1. At every evaluation of the vector field at time \<open>t\<close>, the branch is chosen by the
  strict comparison \<open>t < scaling_watershed\<close>: below the watershed the embedding generator
  receives the resolution-scale factor as \<open>linear_factor\<close> and 1 as \<open>ntk_factor\<close>;
  otherwise, also when \<open>t\<close> equals the watershed, it receives 1 as \<open>linear_factor\<close>
  and the resolution-scale factor as \<open>ntk_factor\<close>. The hypotheses say that the
  evaluation reaches the generator: the scale factor is computed and the head dimension is
  defined.
\<close>

theorem watershed_branch_strict:
  assumes "scale_factor (cl_width c) (cl_height c) (cl_default_image_size c) = Inr sf"
    and "num_attention_heads p \<noteq> 0"
  shows "factors_passed env p c x t kw =
           Some (if t < cl_scaling_watershed c then (sf, 1) else (1, sf))"
  by (rule factors_passed_ok [OF assms])

text \<open>At twice the default size, with the watershed at 1/2: below, at and above it.\<close>

theorem watershed_branch_strict_witness:
  "scale_factor (cl_width (demo_closure 2048 2048 (1/2))) (cl_height (demo_closure 2048 2048 (1/2)))
      (cl_default_image_size (demo_closure 2048 2048 (1/2))) = Inr 2
   \<and> num_attention_heads demo_pipeline \<noteq> 0
   \<and> factors_passed demo_model_env demo_pipeline (demo_closure 2048 2048 (1/2))
         (demo_tensor [1, 4, 256, 256] 0) (1/4) Map.empty = Some (2, 1)
   \<and> factors_passed demo_model_env demo_pipeline (demo_closure 2048 2048 (1/2))
         (demo_tensor [1, 4, 256, 256] 0) (1/2) Map.empty = Some (1, 2)
   \<and> factors_passed demo_model_env demo_pipeline (demo_closure 2048 2048 (1/2))
         (demo_tensor [1, 4, 256, 256] 0) (3/4) Map.empty = Some (1, 2)"
proof -
  let ?c = "demo_closure 2048 2048 (1/2)"
  have sf: "scale_factor (cl_width ?c) (cl_height ?c) (cl_default_image_size ?c) = Inr 2"
    by (simp add: demo_closure_def scale_factor_double)
  have nz: "num_attention_heads demo_pipeline \<noteq> 0"
    by (simp add: demo_pipeline_def)
  have ws: "cl_scaling_watershed ?c = 1/2"
    by (simp add: demo_closure_def)
  show ?thesis
    using sf nz
      watershed_branch_strict [OF sf nz, of demo_model_env "demo_tensor [1, 4, 256, 256] 0" "1/4" Map.empty]
      watershed_branch_strict [OF sf nz, of demo_model_env "demo_tensor [1, 4, 256, 256] 0" "1/2" Map.empty]
      watershed_branch_strict [OF sf nz, of demo_model_env "demo_tensor [1, 4, 256, 256] 0" "3/4" Map.empty]
    by (simp add: ws)
qed

section \<open>C2: one factor scaled, the other 1\<close>

text \<open>
  C2 as it is stated fails at the default resolution. At 1024 by 1024 with the default
  image size 1024 the resolution-scale factor is 1, so both factors are 1: both equal the
  resolution-scale factor, not exactly one of them.
\<close>

theorem exactly_one_scaled_counterexample:
  "scale_factor 1024 1024 1024 = Inr 1
   \<and> factors_passed demo_model_env demo_pipeline (demo_closure 1024 1024 1)
        (demo_tensor [1, 4, 128, 128] 0) (1/2) Map.empty = Some (1, 1)
   \<and> \<not> exactly_one_scaled 1 (1, 1)"
  by (simp add: scale_factor_def factors_passed_def model_fn_run_def demo_closure_def
      demo_pipeline_def demo_model_env_def exactly_one_scaled_def Let_def)

text \<open>
  C2, amended. At every evaluation that reaches the embedding generator, the pair
  (\<open>linear_factor\<close>, \<open>ntk_factor\<close>) is (resolution-scale factor, 1) when
  \<open>t < scaling_watershed\<close> and (1, resolution-scale factor) otherwise: one of the pair
  is the resolution-scale factor and the other is 1; when the resolution-scale factor
  differs from 1, exactly one of the pair equals it; and at any time on the other side of
  the watershed the pair is the swapped one.
\<close>

theorem factors_one_scaled_other_unit:
  assumes "scale_factor (cl_width c) (cl_height c) (cl_default_image_size c) = Inr sf"
    and "num_attention_heads p \<noteq> 0"
  shows "\<exists>lf nf. factors_passed env p c x t kw = Some (lf, nf)
           \<and> (t < cl_scaling_watershed c \<longrightarrow> lf = sf \<and> nf = 1)
           \<and> (\<not> t < cl_scaling_watershed c \<longrightarrow> lf = 1 \<and> nf = sf)
           \<and> ((lf = sf \<and> nf = 1) \<or> (lf = 1 \<and> nf = sf))
           \<and> (sf \<noteq> 1 \<longrightarrow> exactly_one_scaled sf (lf, nf))
           \<and> (\<forall>x' t' kw'. (t' < cl_scaling_watershed c) \<noteq> (t < cl_scaling_watershed c)
                 \<longrightarrow> factors_passed env p c x' t' kw' = Some (nf, lf))"
  by (auto simp add: factors_passed_ok [OF assms] exactly_one_scaled_def)

text \<open>
  At twice the default size, with the watershed at 1/2: the pair is (2, 1) below the
  watershed, and (1, 2) at it and above it.
\<close>

theorem factors_one_scaled_other_unit_witness:
  "scale_factor (cl_width (demo_closure 2048 2048 (1/2))) (cl_height (demo_closure 2048 2048 (1/2)))
      (cl_default_image_size (demo_closure 2048 2048 (1/2))) = Inr 2
   \<and> num_attention_heads demo_pipeline \<noteq> 0
   \<and> factors_passed demo_model_env demo_pipeline (demo_closure 2048 2048 (1/2))
         (demo_tensor [1, 4, 256, 256] 0) (1/4) Map.empty = Some (2, 1)
   \<and> exactly_one_scaled 2 (2, 1)
   \<and> factors_passed demo_model_env demo_pipeline (demo_closure 2048 2048 (1/2))
         (demo_tensor [1, 4, 256, 256] 0) (1/2) Map.empty = Some (1, 2)
   \<and> factors_passed demo_model_env demo_pipeline (demo_closure 2048 2048 (1/2))
         (demo_tensor [1, 4, 256, 256] 0) (3/4) Map.empty = Some (1, 2)"
proof -
  let ?c = "demo_closure 2048 2048 (1/2)"
  let ?x = "demo_tensor [1, 4, 256, 256] 0"
  have sf: "scale_factor (cl_width ?c) (cl_height ?c) (cl_default_image_size ?c) = Inr 2"
    by (simp add: demo_closure_def scale_factor_double)
  have nz: "num_attention_heads demo_pipeline \<noteq> 0"
    by (simp add: demo_pipeline_def)
  have ws: "cl_scaling_watershed ?c = 1/2"
    by (simp add: demo_closure_def)
  from factors_one_scaled_other_unit [OF sf nz, of demo_model_env ?x "1/4" Map.empty]
  obtain lf nf where
    f: "factors_passed demo_model_env demo_pipeline ?c ?x (1/4) Map.empty = Some (lf, nf)"
    and below: "1/4 < cl_scaling_watershed ?c \<longrightarrow> lf = 2 \<and> nf = 1"
    and e: "exactly_one_scaled 2 (lf, nf)"
    and s: "\<forall>x' t' kw'. (t' < cl_scaling_watershed ?c) \<noteq> (1/4 < cl_scaling_watershed ?c)
                 \<longrightarrow> factors_passed demo_model_env demo_pipeline ?c x' t' kw' = Some (nf, lf)"
    by auto
  from below have lf: "lf = 2" and nf: "nf = 1"
    by (simp_all add: ws)
  from factors_one_scaled_other_unit [OF sf nz, of demo_model_env ?x "1/2" Map.empty]
  have at: "factors_passed demo_model_env demo_pipeline ?c ?x (1/2) Map.empty = Some (1, 2)"
    by (auto simp add: ws)
  from s have "factors_passed demo_model_env demo_pipeline ?c ?x (3/4) Map.empty = Some (nf, lf)"
    by (simp add: ws)
  with sf nz f e lf nf at show ?thesis by simp
qed

section \<open>C3: the resolution-scale factor\<close>

text \<open>
  C3. In the closure that \<^verbatim>\<open>generate\<close> creates, the resolution-scale factor is
  \<open>sqrt (width * height / default\<^sup>2)\<close>, where the default image size is the transformer's
  \<open>sample_size\<close> times the \<open>vae_scale_factor\<close> of the pipeline, and it is the factor
  handed to the embedding generator. The hypotheses exclude the inputs on which the
  division or the square root raises.
\<close>

theorem scale_factor_formula:
  assumes "generate_setup env self a = (self1, Inr s)"
    and "sample_size (fr_pipe s) * vae_scale_factor (fr_pipe s) \<noteq> 0"
    and "0 \<le> width a * height a"
    and "num_attention_heads p \<noteq> 0"
  shows "scale_factor (cl_width (new_closure s a)) (cl_height (new_closure s a))
           (cl_default_image_size (new_closure s a)) =
         Inr (sqrt (real_of_int (width a * height a) /
                    (real_of_int (sample_size (fr_pipe s) * vae_scale_factor (fr_pipe s))) ^ 2))
       \<and> factors_passed menv p (new_closure s a) x t kw =
         Some (if t < scaling_watershed a
               then (sqrt (real_of_int (width a * height a) /
                      (real_of_int (sample_size (fr_pipe s) * vae_scale_factor (fr_pipe s))) ^ 2), 1)
               else (1, sqrt (real_of_int (width a * height a) /
                      (real_of_int (sample_size (fr_pipe s) * vae_scale_factor (fr_pipe s))) ^ 2)))"
proof -
  let ?d = "sample_size (fr_pipe s) * vae_scale_factor (fr_pipe s)"
  let ?c = "new_closure s a"
  have d: "cl_default_image_size ?c = ?d"
    by (simp add: new_closure_def generate_setup_Inr(1) [OF assms(1)])
  have n: "0 \<le> real_of_int (width a * height a)"
    using assms(3) by (simp only: of_int_0_le_iff)
  have m: "0 \<le> real_of_int (?d ^ 2)"
    by (simp only: of_int_0_le_iff zero_le_power2)
  have q: "0 \<le> real_of_int (width a * height a) / real_of_int (?d ^ 2)"
    by (rule divide_nonneg_nonneg [OF n m])
  have sf: "scale_factor (cl_width ?c) (cl_height ?c) (cl_default_image_size ?c) =
      Inr (sqrt (real_of_int (width a * height a) / (real_of_int ?d) ^ 2))"
    using assms(2) q unfolding d
    by (simp add: scale_factor_def new_closure_def Let_def not_less del: of_int_mult)
  have ws: "cl_scaling_watershed ?c = scaling_watershed a"
    by (simp add: new_closure_def)
  show ?thesis
    using sf factors_passed_ok [OF sf assms(4), of menv x t kw] by (simp add: ws)
qed

theorem scale_factor_formula_witness:
  "generate_setup (demo_env 7) \<lparr>pipe = None\<rparr> (demo_args 2048 2048 42) =
     (\<lparr>pipe = Some (fr_pipe (demo_frame 2048 2048 42 42))\<rparr>, Inr (demo_frame 2048 2048 42 42))
   \<and> sample_size (fr_pipe (demo_frame 2048 2048 42 42)) *
       vae_scale_factor (fr_pipe (demo_frame 2048 2048 42 42)) = 1024
   \<and> 0 \<le> width (demo_args 2048 2048 42) * height (demo_args 2048 2048 42)
   \<and> num_attention_heads demo_pipeline \<noteq> 0
   \<and> scale_factor (cl_width (new_closure (demo_frame 2048 2048 42 42) (demo_args 2048 2048 42)))
         (cl_height (new_closure (demo_frame 2048 2048 42 42) (demo_args 2048 2048 42)))
         (cl_default_image_size (new_closure (demo_frame 2048 2048 42 42) (demo_args 2048 2048 42)))
       = Inr 2
   \<and> factors_passed demo_model_env demo_pipeline
         (new_closure (demo_frame 2048 2048 42 42) (demo_args 2048 2048 42))
         (demo_tensor [1, 4, 256, 256] 0) (1/2) Map.empty = Some (2, 1)"
proof -
  let ?a = "demo_args 2048 2048 42"
  let ?s = "demo_frame 2048 2048 42 42"
  have su: "generate_setup (demo_env 7) \<lparr>pipe = None\<rparr> ?a = (\<lparr>pipe = Some (fr_pipe ?s)\<rparr>, Inr ?s)"
    using demo_setup [of 7 2048 2048 42] by simp
  have d: "sample_size (fr_pipe ?s) * vae_scale_factor (fr_pipe ?s) = 1024"
    by (simp add: demo_frame_def demo_pipeline_def)
  have nz: "sample_size (fr_pipe ?s) * vae_scale_factor (fr_pipe ?s) \<noteq> 0"
    by (simp add: d)
  have wh: "0 \<le> width ?a * height ?a"
    by (simp add: demo_args_def)
  have h: "num_attention_heads demo_pipeline \<noteq> 0"
    by (simp add: demo_pipeline_def)
  have v: "sqrt (real_of_int (width ?a * height ?a) / (real_of_int 1024)\<^sup>2) = 2"
    by (simp add: demo_args_def)
  have ws: "scaling_watershed ?a = 1"
    by (simp add: demo_args_def)
  show ?thesis
    using su d wh h
      scale_factor_formula [OF su nz wh h, of demo_model_env "demo_tensor [1, 4, 256, 256] 0"
        "1/2" Map.empty]
    unfolding d v by (simp add: ws)
qed

section \<open>C4: the embeddings are recomputed at every evaluation\<close>

text \<open>
  C4. Over any series of evaluations of the vector field, the embedding generator is called
  once per evaluation, with the factors of that evaluation's time; and every call of the
  transformer comes right after the generator's call of the same evaluation and receives
  that call's result as \<^verbatim>\<open>image_rotary_emb\<close>. \<^verbatim>\<open>model_fn\<close> keeps no state between
  evaluations: nothing is cached.
\<close>

theorem rotary_recomputed_each_evaluation:
  assumes "scale_factor (cl_width c) (cl_height c) (cl_default_image_size c) = Inr sf"
    and "num_attention_heads p \<noteq> 0"
  shows "filter is_rotary (evaluations env p c evs) =
         map (\<lambda>(x, t, kw).
                RotaryCall (hidden_size p div num_attention_heads p) (cl_height c div 8)
                  (cl_width c div 8)
                  (if t < cl_scaling_watershed c then sf else 1)
                  (if t < cl_scaling_watershed c then 1 else sf)) evs
       \<and> (\<forall>i x' t' kw'.
            i < length (evaluations env p c evs) \<and>
            evaluations env p c evs ! i = TransformerCall x' t' kw' \<longrightarrow>
            0 < i \<and>
            (\<exists>emb. evaluations env p c evs ! (i - 1) =
                  RotaryCall (hidden_size p div num_attention_heads p) (cl_height c div 8)
                    (cl_width c div 8)
                    (if t' < cl_scaling_watershed c then sf else 1)
                    (if t' < cl_scaling_watershed c then 1 else sf)
              \<and> get_2d_rotary_pos_embed_lumina env (hidden_size p div num_attention_heads p)
                    (cl_height c div 8) (cl_width c div 8)
                    (if t' < cl_scaling_watershed c then sf else 1)
                    (if t' < cl_scaling_watershed c then 1 else sf) = Inr emb
              \<and> kw' ''image_rotary_emb'' = Some (KwEmb emb)))"
  using evaluations_rotary_calls [OF assms] evaluations_transformer_preceded [OF assms]
  by blast

theorem rotary_recomputed_each_evaluation_witness:
  "scale_factor (cl_width (demo_closure 2048 2048 (1/2))) (cl_height (demo_closure 2048 2048 (1/2)))
      (cl_default_image_size (demo_closure 2048 2048 (1/2))) = Inr 2
   \<and> num_attention_heads demo_pipeline \<noteq> 0
   \<and> filter is_rotary
         (evaluations demo_model_env demo_pipeline (demo_closure 2048 2048 (1/2)) demo_evaluations)
       = [RotaryCall 72 256 256 2 1, RotaryCall 72 256 256 1 2]
   \<and> evaluations demo_model_env demo_pipeline (demo_closure 2048 2048 (1/2)) demo_evaluations
       = [RotaryCall 72 256 256 2 1,
          TransformerCall (demo_tensor [1, 4, 256, 256] 0) (1/4)
            [''image_rotary_emb'' \<mapsto> KwEmb (72, 256, 256, 2, 1)],
          RotaryCall 72 256 256 1 2,
          TransformerCall (demo_tensor [1, 4, 256, 256] 0) (3/4)
            [''image_rotary_emb'' \<mapsto> KwEmb (72, 256, 256, 1, 2)]]"
proof -
  let ?c = "demo_closure 2048 2048 (1/2)"
  have sf: "scale_factor (cl_width ?c) (cl_height ?c) (cl_default_image_size ?c) = Inr 2"
    by (simp add: demo_closure_def scale_factor_double)
  have nz: "num_attention_heads demo_pipeline \<noteq> 0"
    by (simp add: demo_pipeline_def)
  have tr: "evaluations demo_model_env demo_pipeline ?c demo_evaluations
       = [RotaryCall 72 256 256 2 1,
          TransformerCall (demo_tensor [1, 4, 256, 256] 0) (1/4)
            [''image_rotary_emb'' \<mapsto> KwEmb (72, 256, 256, 2, 1)],
          RotaryCall 72 256 256 1 2,
          TransformerCall (demo_tensor [1, 4, 256, 256] 0) (3/4)
            [''image_rotary_emb'' \<mapsto> KwEmb (72, 256, 256, 1, 2)]]"
    by (simp add: demo_evaluations_def model_fn_run_ok [OF sf nz])
      (simp add: demo_model_env_def demo_closure_def demo_pipeline_def)
  have "filter is_rotary (evaluations demo_model_env demo_pipeline ?c demo_evaluations)
       = [RotaryCall 72 256 256 2 1, RotaryCall 72 256 256 1 2]"
    using rotary_recomputed_each_evaluation [OF sf nz, of demo_model_env demo_evaluations]
    by (simp add: demo_evaluations_def demo_closure_def demo_pipeline_def)
  with sf nz tr show ?thesis by simp
qed

section \<open>C5: the attribute \<^verbatim>\<open>__call__\<close> of the pipeline\<close>

text \<open>
  C5 as it is stated fails: \<^verbatim>\<open>generate\<close> does override \<^verbatim>\<open>__call__\<close> on the shared
  pipeline object. On a pipeline whose \<^verbatim>\<open>__call__\<close> is its own method, a collaborator
  that reports the attribute of the object it is invoked on reports \<^verbatim>\<open>custom_call\<close>.
\<close>

theorem call_overridden_counterexample:
  "call_attr demo_pipeline = OriginalCall
   \<and> snd (generate_try reporting_env \<lparr>pipe = Some demo_pipeline\<rparr> (demo_args 1024 1024 42)) =
       Inl (OtherError ''__call__ is custom_call'')"
  by (simp add: generate_try_def generate_setup_def reporting_env_def demo_env_def
      demo_args_def demo_pipeline_def patched_def effective_seed_def Let_def)

text \<open>
  C5, amended. \<^verbatim>\<open>generate\<close> overrides \<^verbatim>\<open>__call__\<close> on the shared pipeline object:
  once its sampler is built, it invokes the pipeline on the object whose \<^verbatim>\<open>__call__\<close>
  is the closure \<^verbatim>\<open>custom_call\<close> over the sampler and the arguments, the outcome of
  \<^verbatim>\<open>generate\<close> is the outcome of that invocation, post-processed, and when the
  invocation returns the attribute is what it was on entry again. Inside
  \<^verbatim>\<open>custom_call\<close> the sampler receives the vector field \<^verbatim>\<open>model_fn\<close> as an argument.
  Whether the invocation runs \<^verbatim>\<open>custom_call\<close> is not said.
\<close>

theorem call_patched_then_restored:
  assumes "generate_setup env self a = (self1, Inr s)"
    and "c = \<lparr>cl_ode = \<lparr>ode_num_inference_steps = num_inference_steps a, ode_solver = solver a,
                         ode_t_shift = t_shift a\<rparr>,
              cl_width = width a, cl_height = height a,
              cl_default_image_size = sample_size (fr_pipe s) * vae_scale_factor (fr_pipe s),
              cl_scaling_watershed = scaling_watershed a\<rparr>"
  shows "snd (generate_try env self a) =
           (case pipe_call env ((fr_pipe s)\<lparr>call_attr := CustomCall c\<rparr>) (fr_pipe_args s) of
              Inl e \<Rightarrow> Inl e
            | Inr NoImages \<Rightarrow> Inl (AttributeError ''images'')
            | Inr (Images images) \<Rightarrow>
                (case process_output images of
                   Inl e \<Rightarrow> Inl e
                 | Inr processed_images \<Rightarrow>
                     (case process_latents images (height a) (width a) of
                        Inl e \<Rightarrow> Inl e
                      | Inr latents_dict \<Rightarrow> Inr (processed_images, latents_dict))))
       \<and> (\<forall>out. pipe_call env ((fr_pipe s)\<lparr>call_attr := CustomCall c\<rparr>) (fr_pipe_args s) = Inr out
             \<longrightarrow> pipe (fst (generate env self a)) = Some (fr_pipe s))
       \<and> (\<forall>q. pipe self = Some q \<longrightarrow> call_attr (fr_pipe s) = call_attr q)
       \<and> custom_call menv q c kwargs = ODE_sample menv (cl_ode c) (model_fn menv q c) kwargs"
proof -
  have c: "new_closure s a = c"
    by (simp add: new_closure_def assms(2) generate_setup_Inr(1,3) [OF assms(1)])
  have p: "patched s a = (fr_pipe s)\<lparr>call_attr := CustomCall c\<rparr>"
    by (simp add: patched_def c)
  have r: "snd (generate_try env self a) =
           (case pipe_call env ((fr_pipe s)\<lparr>call_attr := CustomCall c\<rparr>) (fr_pipe_args s) of
              Inl e \<Rightarrow> Inl e
            | Inr NoImages \<Rightarrow> Inl (AttributeError ''images'')
            | Inr (Images images) \<Rightarrow>
                (case process_output images of
                   Inl e \<Rightarrow> Inl e
                 | Inr processed_images \<Rightarrow>
                     (case process_latents images (height a) (width a) of
                        Inl e \<Rightarrow> Inl e
                      | Inr latents_dict \<Rightarrow> Inr (processed_images, latents_dict))))"
    unfolding p [symmetric]
    by (simp add: generate_try_def assms(1) Let_def split: sum.split pipe_output.split)
  have restored: "pipe (fst (generate env self a)) = Some (fr_pipe s)"
    if "pipe_call env ((fr_pipe s)\<lparr>call_attr := CustomCall c\<rparr>) (fr_pipe_args s) = Inr out" for out
    using that generate_setup_Inr(4) [OF assms(1)]
    by (simp add: fst_generate generate_try_node [OF assms(1)] p)
  have entry: "call_attr (fr_pipe s) = call_attr q" if "pipe self = Some q" for q
    using generate_setup_keeps_call [OF that, of env a] generate_setup_Inr(4) [OF assms(1)]
    by (simp add: assms(1))
  show ?thesis
    using r restored entry by (simp add: custom_call_def)
qed

text \<open>
  The run at the defaults on a pipeline whose \<^verbatim>\<open>__call__\<close> is its own method: the
  invocation returns, \<^verbatim>\<open>generate\<close> returns the post-processed images, and the
  attribute is the pipeline's method again.
\<close>

theorem call_patched_then_restored_witness:
  "generate_setup (demo_env 7) \<lparr>pipe = Some demo_pipeline\<rparr> (demo_args 1024 1024 42) =
     (\<lparr>pipe = Some (fr_pipe (demo_frame 1024 1024 42 42))\<rparr>, Inr (demo_frame 1024 1024 42 42))
   \<and> call_attr demo_pipeline = OriginalCall
   \<and> pipe_call (demo_env 7)
        ((fr_pipe (demo_frame 1024 1024 42 42))\<lparr>call_attr := CustomCall
           \<lparr>cl_ode = \<lparr>ode_num_inference_steps = 30, ode_solver = ''midpoint'', ode_t_shift = 4\<rparr>,
            cl_width = 1024, cl_height = 1024, cl_default_image_size = 1024,
            cl_scaling_watershed = 1\<rparr>\<rparr>)
        (fr_pipe_args (demo_frame 1024 1024 42 42)) =
      Inr (Images \<lparr>shape = [1, 3, 1024, 1024], dtype = BFloat16, elem = (\<lambda>_. 0)\<rparr>)
   \<and> snd (generate_try (demo_env 7) \<lparr>pipe = Some demo_pipeline\<rparr> (demo_args 1024 1024 42)) =
      Inr (\<lparr>shape = [1, 1024, 1024, 3], dtype = Float32,
            elem = (\<lambda>i. case i of [bi, hi, wi, ci] \<Rightarrow> 0 | _ \<Rightarrow> 0)\<rparr>,
           [''samples'' \<mapsto> \<lparr>shape = [1, 3, 1024, 1024], dtype = Float32, elem = (\<lambda>_. 0)\<rparr>])
   \<and> map_option call_attr
        (pipe (fst (generate (demo_env 7) \<lparr>pipe = Some demo_pipeline\<rparr> (demo_args 1024 1024 42)))) =
      Some OriginalCall"
proof -
  let ?a = "demo_args 1024 1024 42"
  let ?s = "demo_frame 1024 1024 42 42"
  let ?c = "\<lparr>cl_ode = \<lparr>ode_num_inference_steps = 30, ode_solver = ''midpoint'', ode_t_shift = 4\<rparr>,
            cl_width = 1024, cl_height = 1024, cl_default_image_size = 1024,
            cl_scaling_watershed = 1\<rparr>"
  let ?images = "\<lparr>shape = [1, 3, 1024, 1024], dtype = BFloat16, elem = (\<lambda>_. 0::real)\<rparr>"
  have su: "generate_setup (demo_env 7) \<lparr>pipe = Some demo_pipeline\<rparr> ?a =
      (\<lparr>pipe = Some (fr_pipe ?s)\<rparr>, Inr ?s)"
    by (simp add: generate_setup_def demo_env_def demo_args_def demo_frame_def
        demo_pipeline_def effective_seed_def Let_def)
  have c: "?c = \<lparr>cl_ode = \<lparr>ode_num_inference_steps = num_inference_steps ?a,
                           ode_solver = solver ?a, ode_t_shift = t_shift ?a\<rparr>,
              cl_width = width ?a, cl_height = height ?a,
              cl_default_image_size = sample_size (fr_pipe ?s) * vae_scale_factor (fr_pipe ?s),
              cl_scaling_watershed = scaling_watershed ?a\<rparr>"
    by (simp add: demo_args_def demo_frame_def demo_pipeline_def)
  have o: "call_attr demo_pipeline = OriginalCall"
    by (simp add: demo_pipeline_def)
  have pc: "pipe_call (demo_env 7) ((fr_pipe ?s)\<lparr>call_attr := CustomCall ?c\<rparr>) (fr_pipe_args ?s) =
      Inr (Images ?images)"
    by (simp add: demo_env_def demo_frame_def make_pipe_args_def demo_args_def)
  have po: "process_output ?images =
      Inr \<lparr>shape = [1, 1024, 1024, 3], dtype = Float32,
           elem = (\<lambda>i. case i of [bi, hi, wi, ci] \<Rightarrow> 0 | _ \<Rightarrow> 0)\<rparr>"
    by (intro process_output_const) simp_all
  have pl: "process_latents ?images (height ?a) (width ?a) =
      Inr [''samples'' \<mapsto> \<lparr>shape = [1, 3, 1024, 1024], dtype = Float32, elem = (\<lambda>_. 0)\<rparr>]"
    by (intro process_latents_const) simp
  note inst = call_patched_then_restored [OF su c, of demo_model_env demo_pipeline Map.empty]
  from inst have r: "snd (generate_try (demo_env 7) \<lparr>pipe = Some demo_pipeline\<rparr> ?a) =
      Inr (\<lparr>shape = [1, 1024, 1024, 3], dtype = Float32,
            elem = (\<lambda>i. case i of [bi, hi, wi, ci] \<Rightarrow> 0 | _ \<Rightarrow> 0)\<rparr>,
           [''samples'' \<mapsto> \<lparr>shape = [1, 3, 1024, 1024], dtype = Float32, elem = (\<lambda>_. 0)\<rparr>])"
    by (simp only: pc po pl sum.case pipe_output.case)
  from inst pc have "pipe (fst (generate (demo_env 7) \<lparr>pipe = Some demo_pipeline\<rparr> ?a)) =
      Some (fr_pipe ?s)"
    by blast
  moreover from inst o have "call_attr (fr_pipe ?s) = OriginalCall"
    by simp
  ultimately show ?thesis
    using su o pc r by simp
qed

section \<open>C7: errors\<close>

text \<open>
  C7. Inside the core nothing catches an exception. \<^verbatim>\<open>model_fn\<close> returns every error
  that arises in it: that of the scale factor (a zero default size, a negative product),
  that of the head dimension (no attention heads), that of the embedding generator, or
  else whatever the transformer returns; and \<^verbatim>\<open>custom_call\<close> returns the error of the
  sampler. At the boundary, for every exception \<open>e\<close> raised in the body of
  \<^verbatim>\<open>generate\<close>, \<^verbatim>\<open>generate\<close> returns the pair of zero-filled float32 tensors of
  shapes (batch_size, height, width, 3) and, under \<^verbatim>\<open>"samples"\<close>,
  (batch_size, 4, height div 8, width div 8). The sizes are not negative: a tensor has no
  negative dimension.
\<close>

theorem core_errors_propagate_generate_placeholder:
  "(scale_factor (cl_width c) (cl_height c) (cl_default_image_size c) = Inl e1 \<longrightarrow>
      model_fn menv p c x t kw = Inl e1)
   \<and> (scale_factor (cl_width c) (cl_height c) (cl_default_image_size c) = Inr sf
        \<and> num_attention_heads p = 0 \<longrightarrow>
      model_fn menv p c x t kw = Inl (ZeroDivisionError ''integer division or modulo by zero''))
   \<and> (scale_factor (cl_width c) (cl_height c) (cl_default_image_size c) = Inr sf
      \<and> num_attention_heads p \<noteq> 0 \<longrightarrow>
    model_fn menv p c x t kw =
     (case get_2d_rotary_pos_embed_lumina menv (hidden_size p div num_attention_heads p)
             (cl_height c div 8) (cl_width c div 8)
             (if t < cl_scaling_watershed c then sf else 1)
             (if t < cl_scaling_watershed c then 1 else sf) of
        Inl e1 \<Rightarrow> Inl e1
      | Inr emb \<Rightarrow> transformer menv p x t (kw(''image_rotary_emb'' \<mapsto> KwEmb emb))))
   \<and> (ODE_sample menv (cl_ode c) (model_fn menv p c) kwargs = Inl e2 \<longrightarrow>
        custom_call menv p c kwargs = Inl e2)
   \<and> (snd (generate_try env self a) = Inl e
        \<and> 0 \<le> batch_size a \<and> 0 \<le> height a \<and> 0 \<le> width a \<longrightarrow>
      snd (generate env self a) =
           Inr (\<lparr>shape = [nat (batch_size a), nat (height a), nat (width a), 3],
                 dtype = Float32, elem = (\<lambda>_. 0)\<rparr>,
                [''samples'' \<mapsto>
                   \<lparr>shape = [nat (batch_size a), 4, nat (height a div 8), nat (width a div 8)],
                    dtype = Float32, elem = (\<lambda>_. 0)\<rparr>]))"
  using model_fn_scale_error [of c e1 menv p x t kw]
    model_fn_no_heads [of c sf p menv x t kw]
    model_fn_propagates [of c sf p menv x t kw]
    placeholder_on_error [of env self a e]
  by (simp add: custom_call_def)

text \<open>
  An evaluation at default size 0, one on a pipeline without attention heads, one whose
  embedding generator raises and one whose transformer raises; a sampler that raises what
  its evaluation raised; and a generation whose call of the pipeline raises.
\<close>

theorem core_errors_propagate_generate_placeholder_witness:
  "scale_factor (cl_width ((demo_closure 2048 2048 (1/2))\<lparr>cl_default_image_size := 0\<rparr>))
      (cl_height ((demo_closure 2048 2048 (1/2))\<lparr>cl_default_image_size := 0\<rparr>))
      (cl_default_image_size ((demo_closure 2048 2048 (1/2))\<lparr>cl_default_image_size := 0\<rparr>))
     = Inl (ZeroDivisionError ''division by zero'')
   \<and> model_fn demo_model_env demo_pipeline
        ((demo_closure 2048 2048 (1/2))\<lparr>cl_default_image_size := 0\<rparr>)
        (demo_tensor [1, 4, 256, 256] 0) (1/4) Map.empty
      = Inl (ZeroDivisionError ''division by zero'')
   \<and> scale_factor (cl_width (demo_closure 2048 2048 (1/2))) (cl_height (demo_closure 2048 2048 (1/2)))
      (cl_default_image_size (demo_closure 2048 2048 (1/2))) = Inr 2
   \<and> num_attention_heads (demo_pipeline\<lparr>num_attention_heads := 0\<rparr>) = 0
   \<and> model_fn demo_model_env (demo_pipeline\<lparr>num_attention_heads := 0\<rparr>)
        (demo_closure 2048 2048 (1/2)) (demo_tensor [1, 4, 256, 256] 0) (1/4) Map.empty
      = Inl (ZeroDivisionError ''integer division or modulo by zero'')
   \<and> num_attention_heads demo_pipeline \<noteq> 0
   \<and> model_fn failing_model_env demo_pipeline (demo_closure 2048 2048 (1/2))
        (demo_tensor [1, 4, 256, 256] 0) (1/4) Map.empty
      = Inl (ValueError ''head_dim must be divisible by 4'')
   \<and> model_fn failing_transformer_env demo_pipeline (demo_closure 2048 2048 (1/2))
        (demo_tensor [1, 4, 256, 256] 0) (1/4) Map.empty
      = Inl (RuntimeError ''CUDA out of memory'')
   \<and> ODE_sample failing_sampler_env (cl_ode (demo_closure 2048 2048 (1/2)))
        (model_fn failing_sampler_env demo_pipeline (demo_closure 2048 2048 (1/2))) Map.empty
      = Inl (ValueError ''head_dim must be divisible by 4'')
   \<and> custom_call failing_sampler_env demo_pipeline (demo_closure 2048 2048 (1/2)) Map.empty
      = Inl (ValueError ''head_dim must be divisible by 4'')
   \<and> snd (generate_try failing_env \<lparr>pipe = None\<rparr> (demo_args 1024 1024 42))
      = Inl (RuntimeError ''CUDA out of memory'')
   \<and> 0 \<le> batch_size (demo_args 1024 1024 42)
   \<and> 0 \<le> height (demo_args 1024 1024 42)
   \<and> 0 \<le> width (demo_args 1024 1024 42)
   \<and> snd (generate failing_env \<lparr>pipe = None\<rparr> (demo_args 1024 1024 42)) =
        Inr (\<lparr>shape = [1, 1024, 1024, 3], dtype = Float32, elem = (\<lambda>_. 0)\<rparr>,
             [''samples'' \<mapsto> \<lparr>shape = [1, 4, 128, 128], dtype = Float32, elem = (\<lambda>_. 0)\<rparr>])"
proof -
  let ?c = "demo_closure 2048 2048 (1/2)"
  let ?zc = "(demo_closure 2048 2048 (1/2))\<lparr>cl_default_image_size := 0\<rparr>"
  let ?nh = "demo_pipeline\<lparr>num_attention_heads := 0\<rparr>"
  let ?x = "demo_tensor [1, 4, 256, 256] 0"
  let ?a = "demo_args 1024 1024 42"
  let ?none = "Map.empty :: string \<rightharpoonup> (int \<times> int \<times> int \<times> real \<times> real) kwarg"
  let ?kw = "Map.empty :: string \<rightharpoonup> pyval"
  let ?oom = "RuntimeError ''CUDA out of memory''"
  let ?hd = "ValueError ''head_dim must be divisible by 4''"
  have s0: "scale_factor (cl_width ?zc) (cl_height ?zc) (cl_default_image_size ?zc) =
      Inl (ZeroDivisionError ''division by zero'')"
    by (simp add: demo_closure_def scale_factor_def)
  have sf: "scale_factor (cl_width ?c) (cl_height ?c) (cl_default_image_size ?c) = Inr 2"
    by (simp add: demo_closure_def scale_factor_double)
  have h0: "num_attention_heads ?nh = 0"
    by simp
  have nz: "num_attention_heads demo_pipeline \<noteq> 0"
    by (simp add: demo_pipeline_def)
  have tr: "snd (generate_try failing_env \<lparr>pipe = None\<rparr> ?a) = Inl ?oom"
    by (simp add: failing_generate_try)
  have dims: "0 \<le> batch_size ?a" "0 \<le> height ?a" "0 \<le> width ?a"
    by (simp_all add: demo_args_def)
  have m1: "model_fn demo_model_env demo_pipeline ?zc ?x (1/4) ?none =
      Inl (ZeroDivisionError ''division by zero'')"
    using core_errors_propagate_generate_placeholder
      [of ?zc "ZeroDivisionError ''division by zero''" demo_model_env demo_pipeline ?x "1/4"
        ?none 2 ?kw ?oom failing_env "\<lparr>pipe = None\<rparr>" ?a ?oom] s0
    by blast
  have m2: "model_fn demo_model_env ?nh ?c ?x (1/4) ?none =
      Inl (ZeroDivisionError ''integer division or modulo by zero'')"
    using core_errors_propagate_generate_placeholder
      [of ?c ?oom demo_model_env ?nh ?x "1/4" ?none 2 ?kw ?oom failing_env "\<lparr>pipe = None\<rparr>" ?a ?oom]
      sf h0
    by blast
  have m3: "model_fn failing_model_env demo_pipeline ?c ?x (1/4) ?none = Inl ?hd"
    using core_errors_propagate_generate_placeholder
      [of ?c ?oom failing_model_env demo_pipeline ?x "1/4" ?none 2 ?kw ?oom failing_env
        "\<lparr>pipe = None\<rparr>" ?a ?oom] sf nz
    by (simp add: failing_model_env_def demo_model_env_def)
  have m4: "model_fn failing_transformer_env demo_pipeline ?c ?x (1/4) ?none = Inl ?oom"
    using core_errors_propagate_generate_placeholder
      [of ?c ?oom failing_transformer_env demo_pipeline ?x "1/4" ?none 2 ?kw ?oom failing_env
        "\<lparr>pipe = None\<rparr>" ?a ?oom] sf nz
    by (simp add: failing_transformer_env_def demo_model_env_def)
  have m5: "model_fn failing_sampler_env demo_pipeline ?c ?x 1 ?none = Inl ?hd"
    using core_errors_propagate_generate_placeholder
      [of ?c ?oom failing_sampler_env demo_pipeline ?x 1 ?none 2 ?kw ?oom failing_env
        "\<lparr>pipe = None\<rparr>" ?a ?oom] sf nz
    by (simp add: failing_sampler_env_def failing_model_env_def demo_model_env_def)
  have os: "ODE_sample failing_sampler_env (cl_ode ?c)
        (model_fn failing_sampler_env demo_pipeline ?c) ?kw = Inl ?hd"
  proof -
    have "ODE_sample failing_sampler_env (cl_ode ?c) f ?kw =
        (case f ?x 1 ?none of Inl e \<Rightarrow> Inl e | Inr y \<Rightarrow> Inr (Images y))" for f
      by (simp add: failing_sampler_env_def)
    then show ?thesis
      by (simp only: m5 sum.case)
  qed
  have cc: "custom_call failing_sampler_env demo_pipeline ?c ?kw = Inl ?hd"
    using core_errors_propagate_generate_placeholder
      [of ?c ?oom failing_sampler_env demo_pipeline ?x 1 ?none 2 ?kw ?hd failing_env
        "\<lparr>pipe = None\<rparr>" ?a ?oom] os
    by blast
  have g: "snd (generate failing_env \<lparr>pipe = None\<rparr> ?a) =
        Inr (\<lparr>shape = [1, 1024, 1024, 3], dtype = Float32, elem = (\<lambda>_. 0)\<rparr>,
             [''samples'' \<mapsto> \<lparr>shape = [1, 4, 128, 128], dtype = Float32, elem = (\<lambda>_. 0)\<rparr>])"
    using core_errors_propagate_generate_placeholder
      [of ?c ?oom demo_model_env demo_pipeline ?x "1/4" ?none 2 ?kw ?oom failing_env
        "\<lparr>pipe = None\<rparr>" ?a ?oom] tr dims
    by (simp add: demo_args_def)
  show ?thesis
    using s0 m1 sf h0 m2 nz m3 m4 os cc tr dims g by simp
qed

section \<open>C8: the shape of the samples\<close>

text \<open>
  C8 does not hold of the code. \<^verbatim>\<open>process_latents\<close> never reads \<open>height\<close> and
  \<open>width\<close>: the record under \<^verbatim>\<open>"samples"\<close> is a float32 copy of
  \<^verbatim>\<open>output.images\<close>, the tensor that \<^verbatim>\<open>process_output\<close> permutes into the image
  output. So in every successful run whose image output has the layout
  (batch, height, width, channels) of the requested size, the samples have the shape
  (batch, channels, height, width) and not (batch, channels, height div 8, width div 8),
  the shape that the \<^verbatim>\<open>except\<close> branch gives its placeholder.
\<close>

theorem samples_are_the_image_tensor:
  assumes "generate_try env self a = (self1, Inr (img, latents_dict))"
    and "shape img = [b, nat (height a), nat (width a), ch]"
    and "0 < height a"
  shows "\<exists>smp. latents_dict ''samples'' = Some smp
           \<and> shape smp = [b, ch, nat (height a), nat (width a)]
           \<and> (\<forall>b1 c1. shape smp \<noteq> [b1, c1, nat (height a div 8), nat (width a div 8)])"
proof -
  from successful_run_shapes [OF assms(1)] obtain images b0 c0 h0 w0
    where ld: "latents_dict = [''samples'' \<mapsto> images\<lparr>dtype := Float32\<rparr>]"
      and si: "shape images = [b0, c0, h0, w0]"
      and sg: "shape img = [b0, h0, w0, c0]"
    by blast
  from sg assms(2) have eq: "b0 = b" "h0 = nat (height a)" "w0 = nat (width a)" "c0 = ch"
    by simp_all
  have "height a div 8 < height a"
    using assms(3) by simp
  then have "nat (height a) \<noteq> nat (height a div 8)"
    using assms(3) by simp
  then show ?thesis
    by (simp add: ld si eq)
qed

text \<open>
  The run at the defaults, 1024 by 1024, on a pipeline that returns decoded images: the
  samples have the shape (1, 3, 1024, 1024).
\<close>

theorem samples_are_the_image_tensor_witness:
  "generate_try (demo_env 7) \<lparr>pipe = None\<rparr> (demo_args 1024 1024 42) =
     (\<lparr>pipe = Some (fr_pipe (demo_frame 1024 1024 42 42))\<rparr>,
      Inr (\<lparr>shape = [1, 1024, 1024, 3], dtype = Float32,
            elem = (\<lambda>i. case i of [bi, hi, wi, ci] \<Rightarrow> 0 | _ \<Rightarrow> 0)\<rparr>,
           [''samples'' \<mapsto> \<lparr>shape = [1, 3, 1024, 1024], dtype = Float32,
                              elem = (\<lambda>_. 0)\<rparr>]))
   \<and> 0 < height (demo_args 1024 1024 42)
   \<and> map_option shape
        ([''samples'' \<mapsto> \<lparr>shape = [1, 3, 1024, 1024], dtype = Float32,
                           elem = (\<lambda>_. 0)\<rparr>] ''samples'') =
      Some [1, 3, 1024, 1024]
   \<and> [1, 3, 1024, 1024] \<noteq> [1, 4, nat (1024 div 8), nat (1024 div (8::int))]"
proof -
  let ?a = "demo_args 1024 1024 42"
  let ?img = "\<lparr>shape = [1, 1024, 1024, 3], dtype = Float32,
            elem = (\<lambda>i. case i of [bi, hi, wi, ci] \<Rightarrow> 0 | _ \<Rightarrow> 0)\<rparr>"
  let ?ld = "[''samples'' \<mapsto> \<lparr>shape = [1, 3, 1024, 1024], dtype = Float32,
                              elem = (\<lambda>_. 0)\<rparr>]"
  have run: "generate_try (demo_env 7) \<lparr>pipe = None\<rparr> ?a =
     (\<lparr>pipe = Some (fr_pipe (demo_frame 1024 1024 42 42))\<rparr>, Inr (?img, ?ld))"
    using demo_generate_try [of 1024 1024 42 42 7] by (simp cong: list.case_cong)
  have sh: "shape ?img = [1, nat (height ?a), nat (width ?a), 3]"
    by (simp add: demo_args_def)
  have h: "0 < height ?a"
    by (simp add: demo_args_def)
  from samples_are_the_image_tensor [OF run sh h]
  have "map_option shape (?ld ''samples'') = Some [1, 3, 1024, 1024]"
    by simp
  with run h show ?thesis
    by simp
qed

section \<open>C9: determinism\<close>

text \<open>
  C9 as it is stated fails for the seed \<open>- 1\<close>, the default of the interface: then the
  generator is seeded from \<^verbatim>\<open>os.urandom(4)\<close>, and two invocations with all arguments
  identical, whose draws differ, return different outputs.
\<close>

theorem random_seed_counterexample:
  "snd (generate (demo_env 2) \<lparr>pipe = None\<rparr> (demo_args 1024 1024 (- 1))) \<noteq>
   snd (generate (demo_env 3) \<lparr>pipe = None\<rparr> (demo_args 1024 1024 (- 1)))"
proof -
  have "(\<lambda>_::nat list. 0::real) \<noteq> (\<lambda>_. 1)"
    by (simp add: fun_eq_iff)
  then have "[''samples'' \<mapsto> \<lparr>shape = [1, 3, 1024, 1024], dtype = Float32, elem = (\<lambda>_. 0)\<rparr>]
      ''samples'' \<noteq>
      [''samples'' \<mapsto> \<lparr>shape = [1, 3, 1024, 1024], dtype = Float32, elem = (\<lambda>_. 1)\<rparr>]
      ''samples''"
    by simp
  then have "[''samples'' \<mapsto> \<lparr>shape = [1, 3, 1024, 1024], dtype = Float32, elem = (\<lambda>_. 0::real)\<rparr>]
      \<noteq> [''samples'' \<mapsto> \<lparr>shape = [1, 3, 1024, 1024], dtype = Float32, elem = (\<lambda>_. 1)\<rparr>]"
    by metis
  then show ?thesis
    by (simp add: demo_generate [where es = 2] demo_generate [where es = 3])
qed

text \<open>
  C9, amended. Given an identical seed other than \<open>- 1\<close> and identical other arguments,
  two invocations return identical outputs whatever \<^verbatim>\<open>os.urandom\<close> draws: two
  invocations on the same node state, and also a second invocation on the node that the
  first one left. The loader, the seeding and the call of the pipeline are functions of
  their arguments and of the pipeline object here, so no randomness enters after the
  generator is seeded.
\<close>

theorem generate_deterministic_given_seed:
  assumes "seed a \<noteq> - 1"
  shows "snd (generate (env\<lparr>urandom4 := u2\<rparr>) self a) = snd (generate (env\<lparr>urandom4 := u1\<rparr>) self a)
       \<and> snd (generate (env\<lparr>urandom4 := u2\<rparr>) (fst (generate (env\<lparr>urandom4 := u1\<rparr>) self a)) a) =
         snd (generate (env\<lparr>urandom4 := u1\<rparr>) self a)"
  by (simp add: generate_urandom [OF assms] generate_again)

theorem generate_deterministic_given_seed_witness:
  "seed (demo_args 1024 1024 42) \<noteq> - 1
   \<and> snd (generate ((demo_env 7)\<lparr>urandom4 := 3\<rparr>) \<lparr>pipe = None\<rparr> (demo_args 1024 1024 42)) =
       snd (generate ((demo_env 7)\<lparr>urandom4 := 2\<rparr>) \<lparr>pipe = None\<rparr> (demo_args 1024 1024 42))
   \<and> snd (generate ((demo_env 7)\<lparr>urandom4 := 3\<rparr>)
          (fst (generate ((demo_env 7)\<lparr>urandom4 := 2\<rparr>) \<lparr>pipe = None\<rparr> (demo_args 1024 1024 42)))
          (demo_args 1024 1024 42)) =
       snd (generate ((demo_env 7)\<lparr>urandom4 := 2\<rparr>) \<lparr>pipe = None\<rparr> (demo_args 1024 1024 42))
   \<and> snd (generate ((demo_env 7)\<lparr>urandom4 := 2\<rparr>) \<lparr>pipe = None\<rparr> (demo_args 1024 1024 42)) =
       Inr (\<lparr>shape = [1, 1024, 1024, 3], dtype = Float32,
             elem = (\<lambda>i. case i of [bi, hi, wi, ci] \<Rightarrow> 0 | _ \<Rightarrow> 0)\<rparr>,
            [''samples'' \<mapsto> \<lparr>shape = [1, 3, 1024, 1024], dtype = Float32, elem = (\<lambda>_. 0)\<rparr>])"
proof -
  have sd: "seed (demo_args 1024 1024 42) \<noteq> - 1"
    by (simp add: demo_args_def)
  have env: "(demo_env 7)\<lparr>urandom4 := 2\<rparr> = demo_env 2"
    by (simp add: demo_env_def)
  have "snd (generate (demo_env 2) \<lparr>pipe = None\<rparr> (demo_args 1024 1024 42)) =
       Inr (\<lparr>shape = [1, 1024, 1024, 3], dtype = Float32,
             elem = (\<lambda>i. case i of [bi, hi, wi, ci] \<Rightarrow> 0 | _ \<Rightarrow> 0)\<rparr>,
            [''samples'' \<mapsto> \<lparr>shape = [1, 3, 1024, 1024], dtype = Float32, elem = (\<lambda>_. 0)\<rparr>])"
    by (simp add: demo_generate [where es = 42] cong: list.case_cong)
  with sd generate_deterministic_given_seed
    [OF sd, where env = "demo_env 7" and self = "\<lparr>pipe = None\<rparr>" and ?u1.0 = 2 and ?u2.0 = 3]
  show ?thesis
    by (simp only: env) simp
qed

section \<open>C10: the attribute after an exception in the call of the pipeline\<close>

text \<open>
  C10. If the call of the pipeline raises, \<^verbatim>\<open>generate\<close> leaves \<^verbatim>\<open>__call__\<close> of the
  pipeline object bound to the closure \<^verbatim>\<open>custom_call\<close> of that generation. After any
  further generations on the same node the attribute is still such a closure, never what it
  was before; and it is this very closure as long as no later call of the pipeline raises
  (a later generation whose call raises leaves its own closure instead).
\<close>

theorem call_not_restored_after_exception:
  assumes "pipe_call_raises env self a"
  shows "\<exists>self1 s. generate_setup env self a = (self1, Inr s)
           \<and> pipe (fst (generate env self a)) = Some (patched s a)
           \<and> call_attr (patched s a) = CustomCall (new_closure s a)
           \<and> (\<forall>runs. \<exists>q c. pipe (generations (fst (generate env self a)) runs) = Some q
                   \<and> call_attr q = CustomCall c)
           \<and> (\<forall>runs. no_later_raise (fst (generate env self a)) runs \<longrightarrow>
                 (\<exists>q. pipe (generations (fst (generate env self a)) runs) = Some q
                   \<and> call_attr q = CustomCall (new_closure s a)))"
proof -
  from pipe_call_raises_node [OF assms] obtain self1 s
    where su: "generate_setup env self a = (self1, Inr s)"
      and nd: "fst (generate env self a) = self1\<lparr>pipe := Some (patched s a)\<rparr>"
    by auto
  have p: "pipe (fst (generate env self a)) = Some (patched s a)"
    by (simp add: nd)
  have c: "call_attr (patched s a) = CustomCall (new_closure s a)"
    by (simp add: patched_def)
  have "\<exists>q c. pipe (generations (fst (generate env self a)) runs) = Some q
      \<and> call_attr q = CustomCall c" for runs
    by (rule generations_keep_custom [OF p c])
  moreover have "\<exists>q. pipe (generations (fst (generate env self a)) runs) = Some q
      \<and> call_attr q = CustomCall (new_closure s a)"
    if "no_later_raise (fst (generate env self a)) runs" for runs
    using generations_keep_call [OF p that] by (simp add: c)
  ultimately show ?thesis
    using su p c by blast
qed

text \<open>
  A generation whose call of the pipeline raises, then a successful one with other
  arguments: the attribute is still the closure of the first.
\<close>

theorem call_not_restored_after_exception_witness:
  "pipe_call_raises failing_env \<lparr>pipe = None\<rparr> (demo_args 1024 1024 42)
   \<and> call_attr demo_pipeline = OriginalCall
   \<and> map_option call_attr
        (pipe (fst (generate failing_env \<lparr>pipe = None\<rparr> (demo_args 1024 1024 42)))) =
      Some (CustomCall (new_closure (demo_frame 1024 1024 42 42) (demo_args 1024 1024 42)))
   \<and> no_later_raise (fst (generate failing_env \<lparr>pipe = None\<rparr> (demo_args 1024 1024 42)))
        [(demo_env 7, demo_args 512 512 5)]
   \<and> map_option call_attr
        (pipe (generations (fst (generate failing_env \<lparr>pipe = None\<rparr> (demo_args 1024 1024 42)))
           [(demo_env 7, demo_args 512 512 5)])) =
      Some (CustomCall (new_closure (demo_frame 1024 1024 42 42) (demo_args 1024 1024 42)))"
proof -
  let ?a = "demo_args 1024 1024 42"
  let ?s = "demo_frame 1024 1024 42 42"
  let ?n = "fst (generate failing_env \<lparr>pipe = None\<rparr> ?a)"
  have su: "generate_setup failing_env \<lparr>pipe = None\<rparr> ?a =
     (\<lparr>pipe = Some (fr_pipe ?s)\<rparr>, Inr ?s)"
    using demo_setup [of 7 1024 1024 42] by (simp add: failing_setup)
  have r: "pipe_call_raises failing_env \<lparr>pipe = None\<rparr> ?a"
    unfolding pipe_call_raises_def su by (simp add: failing_env_def)
  have o: "call_attr demo_pipeline = OriginalCall"
    by (simp add: demo_pipeline_def)
  from call_not_restored_after_exception [OF r] su
  have now: "pipe ?n = Some (patched ?s ?a)"
    and later: "\<forall>runs. no_later_raise ?n runs \<longrightarrow>
        (\<exists>q. pipe (generations ?n runs) = Some q \<and> call_attr q = CustomCall (new_closure ?s ?a))"
    by auto
  have n: "?n = \<lparr>pipe = Some (patched ?s ?a)\<rparr>"
    by (simp add: fst_generate failing_generate_try)
  have nr: "no_later_raise ?n [(demo_env 7, demo_args 512 512 5)]"
    unfolding n
    by (simp add: pipe_call_raises_def generate_setup_def patched_def new_closure_def
        demo_env_def demo_args_def demo_frame_def demo_pipeline_def effective_seed_def
        make_pipe_args_def Let_def)
  from later nr
  have "\<exists>q. pipe (generations ?n [(demo_env 7, demo_args 512 512 5)]) = Some q
      \<and> call_attr q = CustomCall (new_closure ?s ?a)"
    by blast
  with r o now nr show ?thesis
    by (auto simp add: patched_def)
qed

end
